theory Spec2Isabelle
  imports Complex_Main "HOL-Library.Word"
begin

section \<open>Modelling conventions\<close>

text \<open>
  The development embeds the register monitor (\<^verbatim>\<open>register_monitor.c\<close>, \<^verbatim>\<open>monitor_utils.c\<close>,
  \<^verbatim>\<open>test_functions.c\<close>, \<^verbatim>\<open>error_recovery.c\<close>, \<^verbatim>\<open>monitor.h\<close>) as HOL functions.

  \<^item> A C \<^verbatim>\<open>float\<close> is an IEEE 754 binary32 value: a finite number, an infinity or a NaN.
    Finite values are carried as reals (every binary32 number is one), the comparisons are
    the IEEE ones (every comparison with a NaN is false) and the arithmetic rounds to the
    nearest binary32 number, ties to even. Expressions of type \<^verbatim>\<open>float\<close> are evaluated in
    \<^verbatim>\<open>float\<close> (\<^verbatim>\<open>FLT_EVAL_METHOD == 0\<close>).
  \<^item> \<^verbatim>\<open>uint32_t\<close> is \<^typ>\<open>32 word\<close>. A C \<^verbatim>\<open>int\<close> has 32 bits and is carried as a HOL
    \<^typ>\<open>int\<close>; the arithmetic on the stored counters (\<^verbatim>\<open>error_count\<close>, the counters of the
    recovery log) and on the health score wraps around at 32 bits, as the two's complement
    arithmetic of the compiled code does. The counters of the \<^verbatim>\<open>for\<close> loops and the tallies
    they keep are plain integers.
  \<^item> A pointer to a monitor system is either \<^verbatim>\<open>NULL\<close> or the address of the one system
    object of the state; a function that writes through the pointer returns the updated
    state.
  \<^item> The register table is a list; a system has \<^verbatim>\<open>MAX_REGISTERS\<close> entries of which the
    first \<^verbatim>\<open>num_registers\<close> are in use.
  \<^item> The \<^verbatim>\<open>static\<close> variables (the call counter of \<^verbatim>\<open>read_register\<close>, the recovery state) and
    the wall clock read by \<^verbatim>\<open>time(NULL)\<close> are fields of an explicit record of globals.
  \<^item> Console output (\<^verbatim>\<open>printf\<close>) and \<^verbatim>\<open>usleep\<close> change none of the modelled state and are
    left out.
\<close>

section \<open>C floats\<close>

datatype c_float = NaN | NegInf | Finite real | PosInf

fun is_nan :: "c_float \<Rightarrow> bool" where
  "is_nan NaN = True"
| "is_nan _ = False"

text \<open>The relational operators \<^verbatim>\<open><\<close>, \<^verbatim>\<open><=\<close>, \<^verbatim>\<open>>\<close>, \<^verbatim>\<open>>=\<close> on floats.\<close>

fun f_lt :: "c_float \<Rightarrow> c_float \<Rightarrow> bool" where
  "f_lt (Finite a) (Finite b) = (a < b)"
| "f_lt NegInf (Finite b) = True"
| "f_lt NegInf PosInf = True"
| "f_lt (Finite a) PosInf = True"
| "f_lt _ _ = False"

fun f_le :: "c_float \<Rightarrow> c_float \<Rightarrow> bool" where
  "f_le (Finite a) (Finite b) = (a \<le> b)"
| "f_le NaN _ = False"
| "f_le _ NaN = False"
| "f_le NegInf _ = True"
| "f_le _ PosInf = True"
| "f_le _ _ = False"

definition f_gt :: "c_float \<Rightarrow> c_float \<Rightarrow> bool" where
  "f_gt a b = f_lt b a"

definition f_ge :: "c_float \<Rightarrow> c_float \<Rightarrow> bool" where
  "f_ge a b = f_le b a"

text \<open>
  Rounding a real to binary32, to nearest and ties to even. The exponent of the binade of
  \<open>x\<close> is searched upwards from 0 (at most to 127) or downwards (at most to -126, where the
  subnormal numbers begin); the unit in the last place is 23 binary digits below it.
\<close>

fun f32_exp_up :: "nat \<Rightarrow> real \<Rightarrow> int \<Rightarrow> int" where
  "f32_exp_up 0 x e = e"
| "f32_exp_up (Suc n) x e = (if 2 powi (e + 1) \<le> x then f32_exp_up n x (e + 1) else e)"

fun f32_exp_down :: "nat \<Rightarrow> real \<Rightarrow> int \<Rightarrow> int" where
  "f32_exp_down 0 x e = e"
| "f32_exp_down (Suc n) x e = (if x < 2 powi e then f32_exp_down n x (e - 1) else e)"

definition f32_exponent :: "real \<Rightarrow> int" where
  "f32_exponent x =
     (if 1 \<le> \<bar>x\<bar> then f32_exp_up 127 \<bar>x\<bar> 0 else f32_exp_down 126 \<bar>x\<bar> 0)"

definition round_half_even :: "real \<Rightarrow> int" where
  "round_half_even q =
     (let n = \<lfloor>q\<rfloor>; r = q - of_int n
      in if r < 1 / 2 then n else if 1 / 2 < r then n + 1 else if even n then n else n + 1)"

definition f32_round :: "real \<Rightarrow> c_float" where
  "f32_round x =
     (let u = 2 powi (f32_exponent x - 23);
          y = of_int (round_half_even (x / u)) * u
      in if 2 powi 128 \<le> \<bar>y\<bar> then (if 0 < y then PosInf else NegInf) else Finite y)"

text \<open>A decimal literal with suffix \<^verbatim>\<open>f\<close> denotes the binary32 number nearest to it.\<close>

definition f32_lit :: "real \<Rightarrow> c_float" where
  "f32_lit x = f32_round x"

fun f_neg :: "c_float \<Rightarrow> c_float" where
  "f_neg NaN = NaN"
| "f_neg NegInf = PosInf"
| "f_neg PosInf = NegInf"
| "f_neg (Finite a) = Finite (- a)"

fun f_add :: "c_float \<Rightarrow> c_float \<Rightarrow> c_float" where
  "f_add (Finite a) (Finite b) = f32_round (a + b)"
| "f_add NaN _ = NaN"
| "f_add _ NaN = NaN"
| "f_add PosInf NegInf = NaN"
| "f_add NegInf PosInf = NaN"
| "f_add PosInf _ = PosInf"
| "f_add _ PosInf = PosInf"
| "f_add NegInf _ = NegInf"
| "f_add _ NegInf = NegInf"

definition f_sub :: "c_float \<Rightarrow> c_float \<Rightarrow> c_float" where
  "f_sub a b = f_add a (f_neg b)"

fun f_mul :: "c_float \<Rightarrow> c_float \<Rightarrow> c_float" where
  "f_mul (Finite a) (Finite b) = f32_round (a * b)"
| "f_mul NaN _ = NaN"
| "f_mul _ NaN = NaN"
| "f_mul (Finite a) b =
     (if a = 0 then NaN else if 0 < a then b else f_neg b)"
| "f_mul a (Finite b) =
     (if b = 0 then NaN else if 0 < b then a else f_neg a)"
| "f_mul a b = (if a = b then PosInf else NegInf)"

section \<open>C ints\<close>

definition INT_MIN :: int where "INT_MIN = - (2 ^ 31)"
definition INT_MAX :: int where "INT_MAX = 2 ^ 31 - 1"

text \<open>The value a 32-bit two's complement register holds for the integer \<open>x\<close>.\<close>

definition int32 :: "int \<Rightarrow> int" where
  "int32 x = (x + 2 ^ 31) mod 2 ^ 32 - 2 ^ 31"

section \<open>monitor.h\<close>

definition MAX_REGISTERS :: int where "MAX_REGISTERS = 16"
definition MAX_ERRORS :: int where "MAX_ERRORS = 10"

definition MIN_VOLTAGE :: c_float where "MIN_VOLTAGE = f32_lit 3.0"
definition MAX_VOLTAGE :: c_float where "MAX_VOLTAGE = f32_lit 3.6"
definition NOMINAL_VOLTAGE :: c_float where "NOMINAL_VOLTAGE = f32_lit 3.3"

definition TEMP_WARNING :: c_float where "TEMP_WARNING = f32_lit 75.0"
definition TEMP_CRITICAL :: c_float where "TEMP_CRITICAL = f32_lit 85.0"
definition TEMP_NORMAL :: c_float where "TEMP_NORMAL = f32_lit 25.0"

definition MIN_CURRENT :: c_float where "MIN_CURRENT = f32_lit 0.05"
definition MAX_CURRENT :: c_float where "MAX_CURRENT = f32_lit 2.0"
definition NOMINAL_CURRENT :: c_float where "NOMINAL_CURRENT = f32_lit 0.5"

datatype system_status_t =
  STATUS_NORMAL | STATUS_WARNING | STATUS_CRITICAL | STATUS_VOLTAGE_ERROR
| STATUS_TEMPERATURE_ERROR | STATUS_CURRENT_ERROR | STATUS_COMMUNICATION_ERROR

text \<open>
  An \<^verbatim>\<open>error_code_t\<close> is an integer: the callers also pass values that are none of the
  enumerators, such as \<^verbatim>\<open>(error_code_t)999\<close>.
\<close>

type_synonym error_code_t = int

definition ERROR_NONE :: error_code_t where "ERROR_NONE = 0"
definition ERROR_VOLTAGE_LOW :: error_code_t where "ERROR_VOLTAGE_LOW = 1"
definition ERROR_VOLTAGE_HIGH :: error_code_t where "ERROR_VOLTAGE_HIGH = 2"
definition ERROR_TEMPERATURE_HIGH :: error_code_t where "ERROR_TEMPERATURE_HIGH = 3"
definition ERROR_CURRENT_LOW :: error_code_t where "ERROR_CURRENT_LOW = 4"
definition ERROR_CURRENT_HIGH :: error_code_t where "ERROR_CURRENT_HIGH = 5"
definition ERROR_COMMUNICATION :: error_code_t where "ERROR_COMMUNICATION = 6"
definition ERROR_TIMEOUT :: error_code_t where "ERROR_TIMEOUT = 7"
definition ERROR_INVALID_DATA :: error_code_t where "ERROR_INVALID_DATA = 8"

lemmas error_code_defs =
  ERROR_NONE_def ERROR_VOLTAGE_LOW_def ERROR_VOLTAGE_HIGH_def ERROR_TEMPERATURE_HIGH_def
  ERROR_CURRENT_LOW_def ERROR_CURRENT_HIGH_def ERROR_COMMUNICATION_def ERROR_TIMEOUT_def
  ERROR_INVALID_DATA_def

section \<open>Task 1: the threshold validators and the status aggregator\<close>

definition validate_voltage_range :: "c_float \<Rightarrow> bool" where
  "validate_voltage_range voltage =
     (if f_lt voltage MIN_VOLTAGE then False
      else if f_gt voltage MAX_VOLTAGE then False
      else True)"

definition validate_temperature_range :: "c_float \<Rightarrow> bool" where
  "validate_temperature_range temperature =
     (if f_gt temperature TEMP_CRITICAL then False
      else if f_gt temperature TEMP_WARNING then True
      else True)"

definition validate_current_range :: "c_float \<Rightarrow> bool" where
  "validate_current_range current =
     (if f_lt current (f32_lit 0) then False
      else if f_lt current MIN_CURRENT then False
      else if f_gt current MAX_CURRENT then False
      else True)"

definition determine_system_status :: "c_float \<Rightarrow> c_float \<Rightarrow> c_float \<Rightarrow> system_status_t" where
  "determine_system_status voltage temperature current =
     (let voltage_ok = (f_ge voltage MIN_VOLTAGE \<and> f_le voltage MAX_VOLTAGE);
          current_ok = (f_ge current MIN_CURRENT \<and> f_le current MAX_CURRENT
                        \<and> f_ge current (f32_lit 0))
      in if f_gt temperature TEMP_CRITICAL then STATUS_CRITICAL
         else if \<not> voltage_ok then STATUS_VOLTAGE_ERROR
         else if \<not> current_ok then
           (if f_lt current (f32_lit 0) then STATUS_CRITICAL
            else if f_lt current MIN_CURRENT then STATUS_WARNING
            else STATUS_WARNING)
         else if f_gt temperature TEMP_WARNING then STATUS_WARNING
         else if voltage_ok \<and> current_ok \<and> f_le temperature TEMP_WARNING then STATUS_NORMAL
         else STATUS_CRITICAL)"

text \<open>
  The priority rule of the specification, in its own words: the first of the five checks
  that fires decides.
\<close>

definition status_priority_rule :: "c_float \<Rightarrow> c_float \<Rightarrow> c_float \<Rightarrow> system_status_t" where
  "status_priority_rule voltage temperature current =
     (if f_gt temperature TEMP_CRITICAL then STATUS_CRITICAL
      else if f_lt voltage MIN_VOLTAGE \<or> f_gt voltage MAX_VOLTAGE then STATUS_VOLTAGE_ERROR
      else if f_lt current (f32_lit 0) then STATUS_CRITICAL
      else if f_lt current MIN_CURRENT \<or> f_gt current MAX_CURRENT then STATUS_WARNING
      else if f_gt temperature TEMP_WARNING then STATUS_WARNING
      else STATUS_NORMAL)"

section \<open>Task 5: the error messages\<close>

text \<open>The result is a \<^verbatim>\<open>const char *\<close>: \<open>None\<close> stands for the null pointer.\<close>

definition get_error_message :: "error_code_t \<Rightarrow> string option" where
  "get_error_message error_code =
     (if error_code = ERROR_NONE then Some ''No error''
      else if error_code = ERROR_VOLTAGE_LOW then Some ''Voltage below minimum threshold''
      else if error_code = ERROR_VOLTAGE_HIGH then Some ''Voltage above maximum threshold''
      else if error_code = ERROR_TEMPERATURE_HIGH then
        Some ''Temperature exceeds critical threshold''
      else if error_code = ERROR_CURRENT_LOW then Some ''Current consumption too low''
      else if error_code = ERROR_CURRENT_HIGH then Some ''Current consumption too high''
      else if error_code = ERROR_COMMUNICATION then Some ''Communication interface failure''
      else if error_code = ERROR_TIMEOUT then Some ''Operation timeout''
      else if error_code = ERROR_INVALID_DATA then Some ''Invalid or corrupted data''
      else Some ''Unknown error'')"

section \<open>The monitored system and the program state\<close>

record register_info_t =
  address :: "32 word"
  "value" :: "32 word"
  expected_min :: "32 word"
  expected_max :: "32 word"
  is_valid :: bool
  name :: string

record monitor_system_t =
  voltage :: c_float
  temperature :: c_float
  current :: c_float
  status :: system_status_t
  error_count :: int
  system_active :: bool
  registers :: "register_info_t list"
  num_registers :: int

text \<open>The state of the recovery layer, \<^verbatim>\<open>error_recovery.c\<close>.\<close>

definition MAX_RETRY_ATTEMPTS :: int where "MAX_RETRY_ATTEMPTS = 3"
definition ERROR_LOG_SIZE :: int where "ERROR_LOG_SIZE = 100"

record error_log_entry_t =
  timestamp :: int
  error_code :: error_code_t
  retry_count :: int
  recovery_successful :: bool
  description :: string

text \<open>
  The field \<^verbatim>\<open>system\<close> of \<^verbatim>\<open>recovery_system_t\<close>, a pointer that
  \<^verbatim>\<open>init_recovery_system\<close> stores and nothing reads, is left out.
\<close>

record recovery_system_t =
  error_log :: "error_log_entry_t list"
  log_count :: int
  total_errors :: int
  successful_recoveries :: int
  degraded_mode :: bool
  degradation_level :: int

text \<open>
  The program state: the caller's \<^verbatim>\<open>monitor_system_t\<close> object \<open>sys\<close>, the \<^verbatim>\<open>static\<close> call
  counter of \<^verbatim>\<open>read_register\<close>, the \<^verbatim>\<open>static\<close> \<^verbatim>\<open>recovery_state\<close>, and the clock: \<open>clock st n\<close>
  is what the \<open>n\<close>-th coming call of \<^verbatim>\<open>time(NULL)\<close> returns.
\<close>

record state =
  sys :: monitor_system_t
  counter :: "32 word"
  recovery_state :: recovery_system_t
  clock :: "nat \<Rightarrow> int"

text \<open>
  A \<^verbatim>\<open>monitor_system_t *\<close> argument is either \<^verbatim>\<open>NULL\<close> or the address of the object \<open>sys\<close> of
  the state.
\<close>

datatype sys_ptr = NULL | SystemPtr

text \<open>\<^verbatim>\<open>system->registers[i]\<close>, read and written.\<close>

definition reg :: "state \<Rightarrow> int \<Rightarrow> register_info_t" where
  "reg st i = registers (sys st) ! nat i"

definition set_reg :: "int \<Rightarrow> (register_info_t \<Rightarrow> register_info_t) \<Rightarrow> state \<Rightarrow> state" where
  "set_reg i f st =
     st\<lparr>sys := (sys st)\<lparr>registers := (registers (sys st))[nat i := f (reg st i)]\<rparr>\<rparr>"

definition c_time :: "state \<Rightarrow> int \<times> state" where
  "c_time st = (clock st 0, st\<lparr>clock := \<lambda>n. clock st (Suc n)\<rparr>)"

section \<open>monitor\_utils.c\<close>

definition read_register :: "32 word \<Rightarrow> state \<Rightarrow> 32 word \<times> state" where
  "read_register addr st =
     (let st1 = st\<lparr>counter := counter st + 1\<rparr>;
          base_value = 0x12345678;
          variation = push_bit 4 (counter st1 mod 16)
      in (base_value + variation, st1))"

definition write_register :: "32 word \<Rightarrow> 32 word \<Rightarrow> bool" where
  "write_register addr v = True"

definition reg_names :: "string list" where
  "reg_names = [''CTRL_REG'', ''STATUS_REG'', ''DATA_REG'', ''CONFIG_REG'']"

definition init_body :: "int \<Rightarrow> state \<Rightarrow> state" where
  "init_body i st =
     set_reg i (\<lambda>r. r\<lparr>address := 0x40000000 + word_of_int (i * 4),
                       value := word_of_int (0x12345678 + i),
                       expected_min := 0x10000000,
                       expected_max := 0x20000000,
                       is_valid := True,
                       name := take 31 (reg_names ! nat i)\<rparr>) st"

function init_loop :: "int \<Rightarrow> state \<Rightarrow> state" where
  "init_loop i st =
     (if i < num_registers (sys st) then init_loop (i + 1) (init_body i st) else st)"
  by pat_completeness auto
termination
  by (relation "measure (\<lambda>(i, st). nat (num_registers (sys st) - i))")
     (auto simp: init_body_def set_reg_def)

definition init_monitor_system :: "sys_ptr \<Rightarrow> state \<Rightarrow> state" where
  "init_monitor_system system st =
     (case system of
        NULL \<Rightarrow> st
      | SystemPtr \<Rightarrow>
          init_loop 0
            (st\<lparr>sys := (sys st)\<lparr>voltage := NOMINAL_VOLTAGE,
                                temperature := TEMP_NORMAL,
                                current := NOMINAL_CURRENT,
                                status := STATUS_NORMAL,
                                error_count := 0,
                                system_active := True,
                                num_registers := 4\<rparr>\<rparr>))"

definition cleanup_monitor_system :: "sys_ptr \<Rightarrow> state \<Rightarrow> state" where
  "cleanup_monitor_system system st =
     (case system of
        NULL \<Rightarrow> st
      | SystemPtr \<Rightarrow> st\<lparr>sys := (sys st)\<lparr>system_active := False\<rparr>\<rparr>)"

text \<open>
  The \<^verbatim>\<open>switch\<close> of \<^verbatim>\<open>simulate_hardware_failure\<close> either sets a reading and falls out of
  the \<^verbatim>\<open>switch\<close> (\<open>Some\<close>) or returns false from its \<^verbatim>\<open>default\<close> (\<open>None\<close>).
\<close>

definition simulate_hardware_failure :: "sys_ptr \<Rightarrow> error_code_t \<Rightarrow> state \<Rightarrow> bool \<times> state" where
  "simulate_hardware_failure system error_type st =
     (case system of
        NULL \<Rightarrow> (False, st)
      | SystemPtr \<Rightarrow>
          (case
             (if error_type = ERROR_VOLTAGE_LOW then
                Some (st\<lparr>sys := (sys st)\<lparr>voltage := f_sub MIN_VOLTAGE (f32_lit 0.1)\<rparr>\<rparr>)
              else if error_type = ERROR_VOLTAGE_HIGH then
                Some (st\<lparr>sys := (sys st)\<lparr>voltage := f_add MAX_VOLTAGE (f32_lit 0.1)\<rparr>\<rparr>)
              else if error_type = ERROR_TEMPERATURE_HIGH then
                Some (st\<lparr>sys := (sys st)\<lparr>temperature := f_add TEMP_CRITICAL (f32_lit 5.0)\<rparr>\<rparr>)
              else if error_type = ERROR_CURRENT_LOW then
                Some (st\<lparr>sys := (sys st)\<lparr>current := f_sub MIN_CURRENT (f32_lit 0.01)\<rparr>\<rparr>)
              else if error_type = ERROR_CURRENT_HIGH then
                Some (st\<lparr>sys := (sys st)\<lparr>current := f_add MAX_CURRENT (f32_lit 0.1)\<rparr>\<rparr>)
              else None)
           of
             None \<Rightarrow> (False, st)
           | Some st1 \<Rightarrow>
               (True,
                st1\<lparr>sys := (sys st1)\<lparr>error_count := int32 (error_count (sys st1) + 1)\<rparr>\<rparr>)))"

text \<open>
  The loop of \<^verbatim>\<open>emergency_shutdown\<close> calls \<^verbatim>\<open>write_register\<close> on every register; the call prints
  and returns, so the loop changes no state.
\<close>

definition emergency_shutdown :: "sys_ptr \<Rightarrow> state \<Rightarrow> state" where
  "emergency_shutdown system st =
     (case system of
        NULL \<Rightarrow> st
      | SystemPtr \<Rightarrow>
          (let st1 = st\<lparr>sys := (sys st)\<lparr>system_active := False\<rparr>\<rparr>;
               st2 = st1\<lparr>sys := (sys st1)\<lparr>status := STATUS_CRITICAL\<rparr>\<rparr>
           in st2))"

section \<open>test\_functions.c\<close>

definition validate_register :: "32 word \<Rightarrow> 32 word \<Rightarrow> 32 word \<Rightarrow> 32 word \<Rightarrow> bool" where
  "validate_register addr v min_v max_v =
     (if v < min_v then False
      else if max_v < v then False
      else True)"

definition test_voltage_levels :: "c_float \<Rightarrow> bool" where
  "test_voltage_levels v =
     (if f_lt v (f32_lit 0) \<or> f_gt v (f32_lit 10.0) then False
      else if f_lt v MIN_VOLTAGE then False
      else if f_gt v MAX_VOLTAGE then False
      else True)"

definition test_current_consumption :: "c_float \<Rightarrow> bool" where
  "test_current_consumption c =
     (if f_lt c (f32_lit 0) then False
      else if f_lt c MIN_CURRENT then False
      else if f_gt c MAX_CURRENT then False
      else True)"

definition test_temperature_range :: "c_float \<Rightarrow> bool" where
  "test_temperature_range t =
     (if f_lt t (f32_lit (- 40.0)) \<or> f_gt t (f32_lit 150.0) then False
      else if f_gt t TEMP_CRITICAL then False
      else if f_gt t TEMP_WARNING then True
      else True)"

function register_tests_loop :: "int \<Rightarrow> int \<Rightarrow> state \<Rightarrow> int" where
  "register_tests_loop i tests_passed st =
     (if i < num_registers (sys st) then
        register_tests_loop (i + 1)
          (if validate_register (address (reg st i)) (value (reg st i))
                (expected_min (reg st i)) (expected_max (reg st i))
           then tests_passed + 1 else tests_passed) st
      else tests_passed)"
  by pat_completeness auto
termination
  by (relation "measure (\<lambda>(i, p, st). nat (num_registers (sys st) - i))") auto

definition run_comprehensive_test :: "sys_ptr \<Rightarrow> state \<Rightarrow> int" where
  "run_comprehensive_test system st =
     (case system of
        NULL \<Rightarrow> 0
      | SystemPtr \<Rightarrow>
          (let p1 = (if test_voltage_levels (voltage (sys st)) then 1 else 0);
               p2 = (if test_current_consumption (current (sys st)) then p1 + 1 else p1);
               p3 = (if test_temperature_range (temperature (sys st)) then p2 + 1 else p2)
           in register_tests_loop 0 p3 st))"

section \<open>register\_monitor.c: the critical conditions and the loops\<close>

definition check_critical_conditions :: "sys_ptr \<Rightarrow> state \<Rightarrow> bool" where
  "check_critical_conditions system st =
     (case system of
        NULL \<Rightarrow> True
      | SystemPtr \<Rightarrow>
          (let critical_status = (status (sys st) = STATUS_CRITICAL);
               high_error_count = (MAX_ERRORS \<le> error_count (sys st));
               system_inactive = (\<not> system_active (sys st));
               critical_temperature = f_gt (temperature (sys st)) TEMP_CRITICAL;
               voltage_out_of_range = (f_lt (voltage (sys st)) MIN_VOLTAGE
                                       \<or> f_gt (voltage (sys st)) MAX_VOLTAGE);
               current_negative = f_lt (current (sys st)) (f32_lit 0)
           in if critical_status \<or> high_error_count \<or> system_inactive
                 \<or> critical_temperature \<or> voltage_out_of_range \<or> current_negative
              then True else False))"

text \<open>
  The body of the loop of \<^verbatim>\<open>scan_all_registers\<close>, with the way it is left: through its end,
  by \<^verbatim>\<open>continue\<close> or by \<^verbatim>\<open>break\<close>.
\<close>

datatype loop_exit = Fallthrough | Continue | Break

definition scan_body :: "int \<Rightarrow> int \<Rightarrow> state \<Rightarrow> loop_exit \<times> int \<times> state" where
  "scan_body i valid_count st =
     (let (v, st1) = read_register (address (reg st i)) st;
          st2 = set_reg i (\<lambda>r. r\<lparr>value := v\<rparr>) st1
      in if validate_register (address (reg st2 i)) v
              (expected_min (reg st2 i)) (expected_max (reg st2 i))
         then
           (let st3 = set_reg i (\<lambda>r. r\<lparr>is_valid := True\<rparr>) st2;
                valid_count1 = valid_count + 1
            in if i = 0 \<and> \<not> is_valid (reg st3 i) then (Break, valid_count1, st3)
               else (Fallthrough, valid_count1, st3))
         else
           (let st3 = set_reg i (\<lambda>r. r\<lparr>is_valid := False\<rparr>) st2;
                st4 = st3\<lparr>sys := (sys st3)\<lparr>error_count :=
                        int32 (error_count (sys st3) + 1)\<rparr>\<rparr>
            in (Continue, valid_count, st4)))"

function scan_loop :: "int \<Rightarrow> int \<Rightarrow> state \<Rightarrow> int \<times> state" where
  "scan_loop i valid_count st =
     (if i < num_registers (sys st) then
        (case scan_body i valid_count st of
           (Break, valid_count1, st1) \<Rightarrow> (valid_count1, st1)
         | (Continue, valid_count1, st1) \<Rightarrow> scan_loop (i + 1) valid_count1 st1
         | (Fallthrough, valid_count1, st1) \<Rightarrow> scan_loop (i + 1) valid_count1 st1)
      else (valid_count, st))"
  by pat_completeness auto
termination
  by (relation "measure (\<lambda>(i, c, st). nat (num_registers (sys st) - i))")
     (auto simp: scan_body_def set_reg_def read_register_def Let_def split: if_splits)

definition scan_all_registers :: "sys_ptr \<Rightarrow> state \<Rightarrow> int \<times> state" where
  "scan_all_registers system st =
     (case system of
        NULL \<Rightarrow> (- 1, st)
      | SystemPtr \<Rightarrow> scan_loop 0 0 st)"

function count_loop :: "int \<Rightarrow> int \<Rightarrow> state \<Rightarrow> int" where
  "count_loop i count st =
     (if i < num_registers (sys st) then
        count_loop (i + 1) (if is_valid (reg st i) then count + 1 else count) st
      else count)"
  by pat_completeness auto
termination
  by (relation "measure (\<lambda>(i, c, st). nat (num_registers (sys st) - i))") auto

definition count_valid_registers :: "sys_ptr \<Rightarrow> state \<Rightarrow> int" where
  "count_valid_registers system st =
     (case system of
        NULL \<Rightarrow> 0
      | SystemPtr \<Rightarrow> count_loop 0 0 st)"

definition update_body :: "int \<Rightarrow> state \<Rightarrow> state" where
  "update_body i st =
     (let (new_value, st1) = read_register (address (reg st i)) st;
          st2 = set_reg i (\<lambda>r. r\<lparr>value := new_value\<rparr>) st1;
          st3 = set_reg i (\<lambda>r. r\<lparr>is_valid :=
                    validate_register (address (reg st2 i)) new_value
                      (expected_min (reg st2 i)) (expected_max (reg st2 i))\<rparr>) st2
      in st3)"

function update_loop :: "int \<Rightarrow> state \<Rightarrow> state" where
  "update_loop i st =
     (if i < num_registers (sys st) then update_loop (i + 1) (update_body i st) else st)"
  by pat_completeness auto
termination
  by (relation "measure (\<lambda>(i, st). nat (num_registers (sys st) - i))")
     (auto simp: update_body_def set_reg_def read_register_def Let_def)

definition update_all_registers :: "sys_ptr \<Rightarrow> state \<Rightarrow> state" where
  "update_all_registers system st =
     (case system of
        NULL \<Rightarrow> st
      | SystemPtr \<Rightarrow>
          (let st1 = update_loop 0 st
           in st1\<lparr>sys := (sys st1)\<lparr>status :=
                  determine_system_status (voltage (sys st1)) (temperature (sys st1))
                    (current (sys st1))\<rparr>\<rparr>))"

text \<open>
  The \<^verbatim>\<open>while\<close> loop of \<^verbatim>\<open>continuous_monitoring_loop\<close> ends when the clock, the system or the
  error count says so, which an arbitrary clock need not do: the loop is run on fuel, and
  \<open>None\<close> says that it was still running when the fuel was spent.
\<close>

fun monitoring_loop :: "nat \<Rightarrow> int \<Rightarrow> int \<Rightarrow> state \<Rightarrow> state option" where
  "monitoring_loop 0 start_time duration_seconds st = None"
| "monitoring_loop (Suc fuel) start_time duration_seconds st =
     (if system_active (sys st) then
        (let (current_time, st1) = c_time st
         in if duration_seconds \<le> current_time - start_time then Some st1
            else
              (let st2 = update_all_registers SystemPtr st1
               in if check_critical_conditions SystemPtr st2 then Some st2
                  else if MAX_ERRORS \<le> error_count (sys st2) then Some st2
                  else monitoring_loop fuel start_time duration_seconds st2))
      else Some st)"

definition continuous_monitoring_loop :: "nat \<Rightarrow> sys_ptr \<Rightarrow> int \<Rightarrow> state \<Rightarrow> state option" where
  "continuous_monitoring_loop fuel system duration_seconds st =
     (if system = NULL \<or> duration_seconds \<le> 0 then Some st
      else
        (let (start_time, st1) = c_time st
         in monitoring_loop fuel start_time duration_seconds st1))"

section \<open>register\_monitor.c: error recovery\<close>

definition attempt_error_recovery :: "sys_ptr \<Rightarrow> error_code_t \<Rightarrow> state \<Rightarrow> bool \<times> state" where
  "attempt_error_recovery system code st =
     (case system of
        NULL \<Rightarrow> (False, st)
      | SystemPtr \<Rightarrow>
          (if code = ERROR_VOLTAGE_LOW then
             (let st1 = st\<lparr>sys := (sys st)\<lparr>voltage := f_add MIN_VOLTAGE (f32_lit 0.1)\<rparr>\<rparr>
              in if f_ge (voltage (sys st1)) MIN_VOLTAGE then (True, st1) else (False, st1))
           else if code = ERROR_VOLTAGE_HIGH then
             (let st1 = st\<lparr>sys := (sys st)\<lparr>voltage := f_sub MAX_VOLTAGE (f32_lit 0.1)\<rparr>\<rparr>
              in if f_le (voltage (sys st1)) MAX_VOLTAGE then (True, st1) else (False, st1))
           else if code = ERROR_TEMPERATURE_HIGH then
             (let st1 = st\<lparr>sys := (sys st)\<lparr>temperature := f_sub TEMP_CRITICAL (f32_lit 5.0)\<rparr>\<rparr>
              in if f_le (temperature (sys st1)) TEMP_CRITICAL then (True, st1)
                 else (False, st1))
           else if code = ERROR_CURRENT_LOW then
             (let st1 = st\<lparr>sys := (sys st)\<lparr>current := f_add MIN_CURRENT (f32_lit 0.05)\<rparr>\<rparr>
              in if f_ge (current (sys st1)) MIN_CURRENT then (True, st1) else (False, st1))
           else if code = ERROR_CURRENT_HIGH then
             (let st1 = st\<lparr>sys := (sys st)\<lparr>current := f_sub MAX_CURRENT (f32_lit 0.1)\<rparr>\<rparr>
              in if f_le (current (sys st1)) MAX_CURRENT then (True, st1) else (False, st1))
           else if code = ERROR_COMMUNICATION then (True, st)
           else if code = ERROR_TIMEOUT then (True, st)
           else if code = ERROR_INVALID_DATA then (True, update_all_registers system st)
           else if code = ERROR_NONE then (True, st)
           else (False, st)))"

section \<open>error\_recovery.c\<close>

definition empty_log_entry :: error_log_entry_t where
  "empty_log_entry =
     \<lparr>timestamp = 0, error_code = 0, retry_count = 0, recovery_successful = False,
      description = []\<rparr>"

definition init_recovery_system :: "sys_ptr \<Rightarrow> state \<Rightarrow> bool \<times> state" where
  "init_recovery_system system st =
     (case system of
        NULL \<Rightarrow> (False, st)
      | SystemPtr \<Rightarrow>
          (True,
           st\<lparr>recovery_state := (recovery_state st)
                 \<lparr>log_count := 0,
                  total_errors := 0,
                  successful_recoveries := 0,
                  degraded_mode := False,
                  degradation_level := 0,
                  error_log := replicate (nat ERROR_LOG_SIZE) empty_log_entry\<rparr>\<rparr>))"

text \<open>
  When the log is full, \<^verbatim>\<open>memmove\<close> copies the entries 1 to 99 onto the entries 0 to 98; the
  new entry then goes to index 99.
\<close>

definition log_recovery_error :: "error_code_t \<Rightarrow> string \<Rightarrow> int \<Rightarrow> bool \<Rightarrow> state \<Rightarrow> state" where
  "log_recovery_error code descr retries successful st =
     (let rs = recovery_state st;
          rs1 = (if ERROR_LOG_SIZE \<le> log_count rs
                 then rs\<lparr>error_log := take (nat (ERROR_LOG_SIZE - 1)) (tl (error_log rs))
                                          @ drop (nat (ERROR_LOG_SIZE - 1)) (error_log rs),
                         log_count := ERROR_LOG_SIZE - 1\<rparr>
                 else rs);
          (now, st1) = c_time st;
          entry = \<lparr>timestamp = now, error_code = code, retry_count = retries,
                   recovery_successful = successful, description = take 127 descr\<rparr>;
          rs2 = rs1\<lparr>error_log := (error_log rs1)[nat (log_count rs1) := entry]\<rparr>;
          rs3 = rs2\<lparr>log_count := int32 (log_count rs2 + 1)\<rparr>;
          rs4 = rs3\<lparr>total_errors := int32 (total_errors rs3 + 1)\<rparr>;
          rs5 = (if successful
                 then rs4\<lparr>successful_recoveries := int32 (successful_recoveries rs4 + 1)\<rparr>
                 else rs4)
      in st1\<lparr>recovery_state := rs5\<rparr>)"

function retry_loop :: "int \<Rightarrow> int \<Rightarrow> state \<Rightarrow> bool \<times> state" where
  "retry_loop attempt max_retries st =
     (if attempt \<le> max_retries then
        (let status1 = determine_system_status (voltage (sys st)) (temperature (sys st))
                         (current (sys st))
         in if status1 = STATUS_CRITICAL \<or> status1 = STATUS_VOLTAGE_ERROR then
              (if attempt < max_retries then
                 (let error = (if status1 = STATUS_CRITICAL then ERROR_TEMPERATURE_HIGH
                               else ERROR_VOLTAGE_LOW);
                      (recovery_success, st1) = attempt_error_recovery SystemPtr error st;
                      st2 = log_recovery_error error ''Retry mechanism recovery attempt''
                              (attempt + 1) recovery_success st1
                  in retry_loop (attempt + 1) max_retries st2)
               else retry_loop (attempt + 1) max_retries st)
            else
              (True,
               if 0 < attempt
               then log_recovery_error ERROR_NONE ''Operation successful after retries''
                      attempt True st
               else st))
      else
        (False,
         log_recovery_error ERROR_TIMEOUT ''Maximum retry attempts exceeded''
           max_retries False st))"
  by pat_completeness auto
termination
  by (relation "measure (\<lambda>(attempt, max_retries, st). nat (max_retries + 1 - attempt))") auto

definition implement_retry_mechanism :: "sys_ptr \<Rightarrow> int \<Rightarrow> state \<Rightarrow> bool \<times> state" where
  "implement_retry_mechanism system max_retries st =
     (case system of
        NULL \<Rightarrow> (False, st)
      | SystemPtr \<Rightarrow> retry_loop 0 max_retries st)"

text \<open>The health assessment of \<^verbatim>\<open>graceful_degradation\<close>, local variable by local variable.\<close>

definition error_penalty :: "monitor_system_t \<Rightarrow> int" where
  "error_penalty s = int32 (error_count s * 10)"

definition voltage_penalty :: "monitor_system_t \<Rightarrow> int" where
  "voltage_penalty s =
     (if f_lt (voltage s) MIN_VOLTAGE \<or> f_gt (voltage s) MAX_VOLTAGE then 30
      else if f_lt (voltage s) (f_mul MIN_VOLTAGE (f32_lit 1.1))
              \<or> f_gt (voltage s) (f_mul MAX_VOLTAGE (f32_lit 0.9)) then 15
      else 0)"

definition temperature_penalty :: "monitor_system_t \<Rightarrow> int" where
  "temperature_penalty s =
     (if f_gt (temperature s) TEMP_CRITICAL then 40
      else if f_gt (temperature s) TEMP_WARNING then 20
      else 0)"

definition current_penalty :: "monitor_system_t \<Rightarrow> int" where
  "current_penalty s =
     (if f_lt (current s) MIN_CURRENT \<or> f_gt (current s) MAX_CURRENT then 25 else 0)"

definition health_score :: "monitor_system_t \<Rightarrow> int" where
  "health_score s =
     (let score = 100;
          penalties = int32 (int32 (int32 (error_penalty s + voltage_penalty s)
                                     + temperature_penalty s) + current_penalty s);
          score1 = int32 (score - penalties)
      in if score1 < 0 then 0 else score1)"

definition new_degradation_level :: "int \<Rightarrow> int" where
  "new_degradation_level score =
     (if 80 \<le> score then 0
      else if 60 \<le> score then 1
      else if 30 \<le> score then 2
      else 3)"

definition graceful_degradation :: "sys_ptr \<Rightarrow> state \<Rightarrow> state" where
  "graceful_degradation system st =
     (case system of
        NULL \<Rightarrow> st
      | SystemPtr \<Rightarrow>
          (let new_level = new_degradation_level (health_score (sys st))
           in if new_level \<noteq> degradation_level (recovery_state st) then
                (let st1 = st\<lparr>recovery_state := (recovery_state st)
                                 \<lparr>degradation_level := new_level\<rparr>\<rparr>;
                     st2 = st1\<lparr>recovery_state := (recovery_state st1)
                                 \<lparr>degraded_mode := (0 < new_level)\<rparr>\<rparr>
                 in if new_level = 0 then
                      log_recovery_error ERROR_NONE ''System returned to normal operation''
                        0 True st2
                    else if new_level = 1 then
                      log_recovery_error ERROR_NONE ''Minor degradation activated'' 0 True st2
                    else if new_level = 2 then
                      log_recovery_error ERROR_NONE ''Major degradation activated'' 0 True st2
                    else if new_level = 3 then
                      log_recovery_error ERROR_NONE ''Critical degradation activated''
                        0 True st2
                    else st2)
              else st))"

text \<open>
  The second phase of \<^verbatim>\<open>comprehensive_error_recovery\<close>: the result is the flag
  \<^verbatim>\<open>recovery_successful\<close>, the final value of \<^verbatim>\<open>recovery_attempts\<close> and the state.
\<close>

function recovery_loop :: "int \<Rightarrow> error_code_t \<Rightarrow> state \<Rightarrow> bool \<times> int \<times> state" where
  "recovery_loop recovery_attempts code st =
     (if recovery_attempts \<le> MAX_RETRY_ATTEMPTS then
        (let (basic_recovery, st1) = attempt_error_recovery SystemPtr code st;
             status1 = determine_system_status (voltage (sys st1)) (temperature (sys st1))
                         (current (sys st1))
         in if basic_recovery \<and> (status1 = STATUS_NORMAL \<or> status1 = STATUS_WARNING)
            then (True, recovery_attempts, st1)
            else recovery_loop (recovery_attempts + 1) code st1)
      else (False, recovery_attempts, st))"
  by pat_completeness auto
termination
  by (relation "measure (\<lambda>(recovery_attempts, code, st).
                   nat (MAX_RETRY_ATTEMPTS + 1 - recovery_attempts))") auto

definition comprehensive_error_recovery :: "sys_ptr \<Rightarrow> error_code_t \<Rightarrow> state \<Rightarrow> bool \<times> state" where
  "comprehensive_error_recovery system code st =
     (case system of
        NULL \<Rightarrow> (False, st)
      | SystemPtr \<Rightarrow>
          (let st1 =
                 (if code = ERROR_TEMPERATURE_HIGH then
                    st\<lparr>sys := (sys st)\<lparr>temperature :=
                          f_sub (temperature (sys st)) (f32_lit 10.0)\<rparr>\<rparr>
                  else if code = ERROR_VOLTAGE_LOW \<or> code = ERROR_VOLTAGE_HIGH then
                    (if code = ERROR_VOLTAGE_LOW
                     then st\<lparr>sys := (sys st)\<lparr>voltage := f_add MIN_VOLTAGE (f32_lit 0.1)\<rparr>\<rparr>
                     else st\<lparr>sys := (sys st)\<lparr>voltage := f_sub MAX_VOLTAGE (f32_lit 0.1)\<rparr>\<rparr>)
                  else if code = ERROR_CURRENT_HIGH then
                    st\<lparr>sys := (sys st)\<lparr>current := f_sub MAX_CURRENT (f32_lit 0.1)\<rparr>\<rparr>
                  else st);
               (recovery_successful1, recovery_attempts, st2) = recovery_loop 1 code st1;
               (recovery_successful2, st3) =
                 (if \<not> recovery_successful1 then
                    (let st' = graceful_degradation system st2
                     in (degradation_level (recovery_state st') < 3, st'))
                  else (recovery_successful1, st2));
               descr = ''Comprehensive recovery for ''
                         @ (case get_error_message code of Some msg \<Rightarrow> msg | None \<Rightarrow> []);
               st4 = log_recovery_error code descr recovery_attempts recovery_successful2 st3
           in (recovery_successful2, st4)))"

text \<open>
  \<^verbatim>\<open>simulate_error_scenarios\<close> writes through its argument without a test for \<^verbatim>\<open>NULL\<close>: it is
  called with the address of the system.
\<close>

definition simulate_error_scenarios :: "state \<Rightarrow> state" where
  "simulate_error_scenarios st =
     (let st1 = st\<lparr>sys := (sys st)\<lparr>temperature := f_add TEMP_CRITICAL (f32_lit 5.0)\<rparr>\<rparr>;
          (r1, st2) = comprehensive_error_recovery SystemPtr ERROR_TEMPERATURE_HIGH st1;
          st3 = st2\<lparr>sys := (sys st2)\<lparr>voltage := f_sub MIN_VOLTAGE (f32_lit 0.2)\<rparr>\<rparr>;
          (r2, st4) = comprehensive_error_recovery SystemPtr ERROR_VOLTAGE_LOW st3;
          (r3, st5) = comprehensive_error_recovery SystemPtr ERROR_COMMUNICATION st4;
          st6 = st5\<lparr>sys := (sys st5)\<lparr>temperature := f_add TEMP_CRITICAL (f32_lit 2.0)\<rparr>\<rparr>;
          st7 = st6\<lparr>sys := (sys st6)\<lparr>current := f_add MAX_CURRENT (f32_lit 0.3)\<rparr>\<rparr>;
          st8 = st7\<lparr>sys := (sys st7)\<lparr>error_count := 8\<rparr>\<rparr>;
          (r4, st9) = comprehensive_error_recovery SystemPtr ERROR_TEMPERATURE_HIGH st8;
          (r5, st10) = comprehensive_error_recovery SystemPtr ERROR_CURRENT_HIGH st9
      in st10)"

section \<open>The operations on the state\<close>

text \<open>
  The recursive equations of the loops are unfolded by hand, one iteration at a time.
\<close>

declare init_loop.simps [simp del] register_tests_loop.simps [simp del]
  scan_loop.simps [simp del] count_loop.simps [simp del] update_loop.simps [simp del]
  retry_loop.simps [simp del] recovery_loop.simps [simp del]

text \<open>
  The functions of \<^verbatim>\<open>monitor.h\<close> and of \<^verbatim>\<open>error_recovery.c\<close> as operations on the state. The
  functions that take floats or a pointer to \<^verbatim>\<open>const\<close> receive no system they could write
  to: their effect is the identity. \<^verbatim>\<open>continuous_monitoring_loop\<close> carries its fuel.
\<close>

datatype operation =
    Validate_voltage_range c_float
  | Validate_temperature_range c_float
  | Validate_current_range c_float
  | Determine_system_status c_float c_float c_float
  | Check_critical_conditions sys_ptr
  | Scan_all_registers sys_ptr
  | Continuous_monitoring_loop nat sys_ptr int
  | Count_valid_registers sys_ptr
  | Update_all_registers sys_ptr
  | Run_comprehensive_test sys_ptr
  | Attempt_error_recovery sys_ptr error_code_t
  | Init_monitor_system sys_ptr
  | Cleanup_monitor_system sys_ptr
  | Simulate_hardware_failure sys_ptr error_code_t
  | Emergency_shutdown sys_ptr
  | Init_recovery_system sys_ptr
  | Implement_retry_mechanism sys_ptr int
  | Graceful_degradation sys_ptr
  | Comprehensive_error_recovery sys_ptr error_code_t
  | Simulate_error_scenarios

fun exec :: "operation \<Rightarrow> state \<Rightarrow> state option" where
  "exec (Validate_voltage_range v) st = Some st"
| "exec (Validate_temperature_range t) st = Some st"
| "exec (Validate_current_range c) st = Some st"
| "exec (Determine_system_status v t c) st = Some st"
| "exec (Check_critical_conditions p) st = Some st"
| "exec (Scan_all_registers p) st = Some (snd (scan_all_registers p st))"
| "exec (Continuous_monitoring_loop fuel p d) st = continuous_monitoring_loop fuel p d st"
| "exec (Count_valid_registers p) st = Some st"
| "exec (Update_all_registers p) st = Some (update_all_registers p st)"
| "exec (Run_comprehensive_test p) st = Some st"
| "exec (Attempt_error_recovery p code) st = Some (snd (attempt_error_recovery p code st))"
| "exec (Init_monitor_system p) st = Some (init_monitor_system p st)"
| "exec (Cleanup_monitor_system p) st = Some (cleanup_monitor_system p st)"
| "exec (Simulate_hardware_failure p code) st = Some (snd (simulate_hardware_failure p code st))"
| "exec (Emergency_shutdown p) st = Some (emergency_shutdown p st)"
| "exec (Init_recovery_system p) st = Some (snd (init_recovery_system p st))"
| "exec (Implement_retry_mechanism p n) st = Some (snd (implement_retry_mechanism p n st))"
| "exec (Graceful_degradation p) st = Some (graceful_degradation p st)"
| "exec (Comprehensive_error_recovery p code) st =
     Some (snd (comprehensive_error_recovery p code st))"
| "exec Simulate_error_scenarios st = Some (simulate_error_scenarios st)"

text \<open>The operations that reach a call of \<^verbatim>\<open>update_all_registers\<close> on the system.\<close>

fun calls_update_all_registers :: "operation \<Rightarrow> bool" where
  "calls_update_all_registers (Update_all_registers p) = (p = SystemPtr)"
| "calls_update_all_registers (Attempt_error_recovery p code) =
     (p = SystemPtr \<and> code = ERROR_INVALID_DATA)"
| "calls_update_all_registers (Comprehensive_error_recovery p code) =
     (p = SystemPtr \<and> code = ERROR_INVALID_DATA)"
| "calls_update_all_registers (Continuous_monitoring_loop fuel p d) = (p = SystemPtr)"
| "calls_update_all_registers _ = False"

section \<open>Concrete states\<close>

text \<open>
  A zeroed state, the state after \<^verbatim>\<open>init_monitor_system\<close>, that state with a control register
  (index 0) whose expected range excludes every value \<^verbatim>\<open>read_register\<close> returns, and the
  initialised state with nine errors counted.
\<close>

definition blank_register :: register_info_t where
  "blank_register =
     \<lparr>address = 0, value = 0, expected_min = 0, expected_max = 0, is_valid = False,
      name = []\<rparr>"

definition blank_state :: state where
  "blank_state =
     \<lparr>sys = \<lparr>voltage = Finite 0, temperature = Finite 0, current = Finite 0,
             status = STATUS_NORMAL, error_count = 0, system_active = False,
             registers = replicate (nat MAX_REGISTERS) blank_register, num_registers = 0\<rparr>,
      counter = 0,
      recovery_state = \<lparr>error_log = replicate (nat ERROR_LOG_SIZE) empty_log_entry,
                        log_count = 0, total_errors = 0, successful_recoveries = 0,
                        degraded_mode = False, degradation_level = 0\<rparr>,
      clock = (\<lambda>n. 0)\<rparr>"

definition initial_state :: state where
  "initial_state = init_monitor_system SystemPtr blank_state"

definition control_failure_state :: state where
  "control_failure_state =
     set_reg 0 (\<lambda>r. r\<lparr>expected_min := 0x20000000, expected_max := 0x30000000\<rparr>) initial_state"

definition nine_errors_state :: state where
  "nine_errors_state = initial_state\<lparr>sys := (sys initial_state)\<lparr>error_count := 9\<rparr>\<rparr>"

text \<open>
  The state with the failing control register and \<^verbatim>\<open>INT_MAX\<close> errors counted, and the
  initialised state with 429496729 errors counted: ten times that number is six less than
  \<open>2 ^ 32\<close>.
\<close>

definition int_max_errors_state :: state where
  "int_max_errors_state =
     control_failure_state\<lparr>sys := (sys control_failure_state)\<lparr>error_count := 2147483647\<rparr>\<rparr>"

definition wrapped_penalty_state :: state where
  "wrapped_penalty_state =
     initial_state\<lparr>sys := (sys initial_state)\<lparr>error_count := 429496729\<rparr>\<rparr>"

section \<open>The values of the constants\<close>

lemmas f32_eval =
  f32_lit_def f32_round_def f32_exponent_def round_half_even_def eval_nat_numeral Let_def

lemma MIN_VOLTAGE_val: "MIN_VOLTAGE = Finite 3"
  by (simp add: MIN_VOLTAGE_def f32_eval)

lemma MAX_VOLTAGE_val: "MAX_VOLTAGE = Finite (7549747 / 2097152)"
  by (simp add: MAX_VOLTAGE_def f32_eval)

lemma TEMP_WARNING_val: "TEMP_WARNING = Finite 75"
  by (simp add: TEMP_WARNING_def f32_eval)

lemma TEMP_CRITICAL_val: "TEMP_CRITICAL = Finite 85"
  by (simp add: TEMP_CRITICAL_def f32_eval)

lemma MIN_CURRENT_val: "MIN_CURRENT = Finite (13421773 / 268435456)"
  by (simp add: MIN_CURRENT_def f32_eval)

lemma MAX_CURRENT_val: "MAX_CURRENT = Finite 2"
  by (simp add: MAX_CURRENT_def f32_eval)

lemma zero_lit_val: "f32_lit 0 = Finite 0"
  by (simp add: f32_eval)

lemmas threshold_vals =
  MIN_VOLTAGE_val MAX_VOLTAGE_val TEMP_WARNING_val TEMP_CRITICAL_val
  MIN_CURRENT_val MAX_CURRENT_val zero_lit_val

text \<open>The literals of the test suite: \<^verbatim>\<open>3.3f\<close>, \<^verbatim>\<open>2.5f\<close>, \<^verbatim>\<open>25.0f\<close>, \<^verbatim>\<open>80.0f\<close>, \<^verbatim>\<open>90.0f\<close>, \<^verbatim>\<open>0.5f\<close>.\<close>

lemma test_literal_vals:
  "f32_lit 3.3 = Finite (13841203 / 4194304)"
  "f32_lit 2.5 = Finite (5 / 2)"
  "f32_lit 25.0 = Finite 25"
  "f32_lit 80.0 = Finite 80"
  "f32_lit 90.0 = Finite 90"
  "f32_lit 0.5 = Finite (1 / 2)"
  "f32_lit (- 100.0) = Finite (- 100)"
  by (simp_all add: f32_eval)

text \<open>The same literals as the simplifier normalises them.\<close>

lemma test_literal_nf:
  "f32_lit (5 / 2) = Finite (5 / 2)"
  "f32_lit 25 = Finite 25"
  "f32_lit 80 = Finite 80"
  "f32_lit 90 = Finite 90"
  "f32_lit (1 / 2) = Finite (1 / 2)"
  "f32_lit (- 100) = Finite (- 100)"
  by (simp_all add: f32_eval)

section \<open>The validators\<close>

text \<open>
  C3. For every float \<open>v\<close>, \<^verbatim>\<open>validate_voltage_range(v)\<close> is true when
  \<open>MIN_VOLTAGE \<le> v \<le> MAX_VOLTAGE\<close> and false when \<open>v\<close> is strictly below \<open>MIN_VOLTAGE\<close> or
  strictly above \<open>MAX_VOLTAGE\<close>; both boundary values pass.
\<close>

theorem validate_voltage_range_spec:
  "(f_le MIN_VOLTAGE v \<and> f_le v MAX_VOLTAGE \<longrightarrow> validate_voltage_range v)
   \<and> (f_lt v MIN_VOLTAGE \<or> f_gt v MAX_VOLTAGE \<longrightarrow> \<not> validate_voltage_range v)
   \<and> validate_voltage_range MIN_VOLTAGE
   \<and> validate_voltage_range MAX_VOLTAGE"
  by (cases v) (auto simp: validate_voltage_range_def f_gt_def threshold_vals)

theorem validate_voltage_range_spec_witness:
  "f_le MIN_VOLTAGE (f32_lit 3.3) \<and> f_le (f32_lit 3.3) MAX_VOLTAGE
   \<and> validate_voltage_range (f32_lit 3.3)
   \<and> f_lt (f32_lit 2.5) MIN_VOLTAGE \<and> \<not> validate_voltage_range (f32_lit 2.5)"
  using validate_voltage_range_spec [of "f32_lit 3.3"]
        validate_voltage_range_spec [of "f32_lit 2.5"]
  by (simp add: threshold_vals test_literal_vals test_literal_nf)

text \<open>
  C4. For every float \<open>t\<close>, \<^verbatim>\<open>validate_temperature_range(t)\<close> is false if and only if
  \<open>t > TEMP_CRITICAL\<close>; it is true for every \<open>t \<le> TEMP_CRITICAL\<close>, in particular at
  \<open>TEMP_CRITICAL\<close>, at \<open>TEMP_WARNING\<close> and for every finite value however negative, and for
  minus infinity: there is no lower bound.
\<close>

theorem validate_temperature_range_spec:
  "(\<not> validate_temperature_range t \<longleftrightarrow> f_gt t TEMP_CRITICAL)
   \<and> (f_le t TEMP_CRITICAL \<longrightarrow> validate_temperature_range t)
   \<and> validate_temperature_range TEMP_CRITICAL
   \<and> validate_temperature_range TEMP_WARNING
   \<and> (\<forall>x. x \<le> 85 \<longrightarrow> validate_temperature_range (Finite x))
   \<and> validate_temperature_range NegInf"
  by (cases t) (auto simp: validate_temperature_range_def f_gt_def threshold_vals)

theorem validate_temperature_range_spec_witness:
  "f_le (f32_lit (- 100.0)) TEMP_CRITICAL \<and> validate_temperature_range (f32_lit (- 100.0))
   \<and> - (10 ^ 30) \<le> (85 :: real) \<and> validate_temperature_range (Finite (- (10 ^ 30)))"
  using validate_temperature_range_spec [of "f32_lit (- 100.0)"]
  by (simp add: threshold_vals test_literal_vals test_literal_nf)

section \<open>The status aggregator\<close>

text \<open>
  C1 (as amended). For all float inputs none of which is a NaN,
  \<^verbatim>\<open>determine_system_status\<close> returns the status of the priority rule: CRITICAL if
  \<open>temperature > TEMP_CRITICAL\<close>; else VOLTAGE_ERROR if the voltage is below \<open>MIN_VOLTAGE\<close> or
  above \<open>MAX_VOLTAGE\<close>; else CRITICAL if the current is negative and WARNING if it is below
  \<open>MIN_CURRENT\<close> or above \<open>MAX_CURRENT\<close>; else WARNING if \<open>temperature > TEMP_WARNING\<close>; else
  NORMAL. The four readings of the test suite give NORMAL, VOLTAGE_ERROR, WARNING and
  CRITICAL.
\<close>

theorem determine_system_status_priority:
  "(\<not> is_nan v \<and> \<not> is_nan t \<and> \<not> is_nan c \<longrightarrow>
      determine_system_status v t c = status_priority_rule v t c)
   \<and> determine_system_status (f32_lit 3.3) (f32_lit 25.0) (f32_lit 0.5) = STATUS_NORMAL
   \<and> determine_system_status (f32_lit 2.5) (f32_lit 25.0) (f32_lit 0.5) = STATUS_VOLTAGE_ERROR
   \<and> determine_system_status (f32_lit 3.3) (f32_lit 80.0) (f32_lit 0.5) = STATUS_WARNING
   \<and> determine_system_status (f32_lit 3.3) (f32_lit 90.0) (f32_lit 0.5) = STATUS_CRITICAL"
proof -
  have rule: "determine_system_status v t c = status_priority_rule v t c"
    if "\<not> is_nan v" "\<not> is_nan t" "\<not> is_nan c"
    using that
    by (cases v; cases t; cases c)
       (auto simp: determine_system_status_def status_priority_rule_def
                   f_gt_def f_ge_def threshold_vals)
  have tests:
    "determine_system_status (f32_lit 3.3) (f32_lit 25.0) (f32_lit 0.5) = STATUS_NORMAL"
    "determine_system_status (f32_lit 2.5) (f32_lit 25.0) (f32_lit 0.5) = STATUS_VOLTAGE_ERROR"
    "determine_system_status (f32_lit 3.3) (f32_lit 80.0) (f32_lit 0.5) = STATUS_WARNING"
    "determine_system_status (f32_lit 3.3) (f32_lit 90.0) (f32_lit 0.5) = STATUS_CRITICAL"
    by (simp_all add: determine_system_status_def f_gt_def f_ge_def threshold_vals
                      test_literal_vals test_literal_nf)
  from rule tests show ?thesis by blast
qed

theorem determine_system_status_priority_witness:
  "\<not> is_nan (f32_lit 3.3) \<and> \<not> is_nan (f32_lit 80.0) \<and> \<not> is_nan (f32_lit 0.5)
   \<and> determine_system_status (f32_lit 3.3) (f32_lit 80.0) (f32_lit 0.5)
       = status_priority_rule (f32_lit 3.3) (f32_lit 80.0) (f32_lit 0.5)"
  using determine_system_status_priority [of "f32_lit 3.3" "f32_lit 80.0" "f32_lit 0.5"]
  by (simp add: test_literal_vals test_literal_nf)

text \<open>
  C1 as stated fails on a NaN: with the voltage and the current of the normal test reading
  and a NaN temperature neither temperature check fires, the final test
  \<^verbatim>\<open>temperature <= TEMP_WARNING\<close> is false as well, and the function returns the CRITICAL of
  its fallback, where the rule says NORMAL.
\<close>

theorem determine_system_status_nan_counterexample:
  "determine_system_status (f32_lit 3.3) NaN (f32_lit 0.5) = STATUS_CRITICAL
   \<and> status_priority_rule (f32_lit 3.3) NaN (f32_lit 0.5) = STATUS_NORMAL"
  by (simp add: determine_system_status_def status_priority_rule_def f_gt_def f_ge_def
                threshold_vals test_literal_vals test_literal_nf)

section \<open>The error messages\<close>

text \<open>
  C6. For every error code, also one that is none of the nine enumerators,
  \<^verbatim>\<open>get_error_message\<close> returns a non-null, non-empty string that depends on the code only;
  for every code that is none of the nine enumerators the string is "Unknown error".
\<close>

theorem get_error_message_total:
  "(\<exists>msg. get_error_message code = Some msg \<and> msg \<noteq> [])
   \<and> (code \<notin> {ERROR_NONE, ERROR_VOLTAGE_LOW, ERROR_VOLTAGE_HIGH, ERROR_TEMPERATURE_HIGH,
                ERROR_CURRENT_LOW, ERROR_CURRENT_HIGH, ERROR_COMMUNICATION, ERROR_TIMEOUT,
                ERROR_INVALID_DATA}
        \<longrightarrow> get_error_message code = Some ''Unknown error'')"
  by (simp add: get_error_message_def)

theorem get_error_message_total_witness:
  "(999 :: error_code_t) \<notin> {ERROR_NONE, ERROR_VOLTAGE_LOW, ERROR_VOLTAGE_HIGH,
        ERROR_TEMPERATURE_HIGH, ERROR_CURRENT_LOW, ERROR_CURRENT_HIGH, ERROR_COMMUNICATION,
        ERROR_TIMEOUT, ERROR_INVALID_DATA}
   \<and> get_error_message 999 = Some ''Unknown error''"
  using get_error_message_total [of 999]
  by (simp add: error_code_defs)

section \<open>NULL systems\<close>

text \<open>
  C5. A \<^verbatim>\<open>NULL\<close> system is the failure or critical outcome everywhere:
  \<^verbatim>\<open>check_critical_conditions(NULL)\<close> is true, \<^verbatim>\<open>scan_all_registers(NULL)\<close> is -1,
  \<^verbatim>\<open>count_valid_registers(NULL)\<close> is 0 and \<^verbatim>\<open>attempt_error_recovery(NULL, code)\<close> is false for
  every code; none of them changes the state.
\<close>

theorem null_system_handling:
  "check_critical_conditions NULL st = True
   \<and> scan_all_registers NULL st = (- 1, st)
   \<and> count_valid_registers NULL st = 0
   \<and> attempt_error_recovery NULL code st = (False, st)"
  by (simp add: check_critical_conditions_def scan_all_registers_def
                count_valid_registers_def attempt_error_recovery_def)

section \<open>One-shot recovery\<close>

lemma recovery_literal_nf:
  "f32_lit (1 / 10) = Finite (13421773 / 134217728)"
  "f32_lit 5 = Finite 5"
  "f32_lit (1 / 20) = Finite (13421773 / 268435456)"
  by (simp_all add: f32_eval)

lemma corrected_in_bounds:
  "f_ge (f_add MIN_VOLTAGE (f32_lit 0.1)) MIN_VOLTAGE"
  "f_le (f_sub MAX_VOLTAGE (f32_lit 0.1)) MAX_VOLTAGE"
  "f_le (f_sub TEMP_CRITICAL (f32_lit 5.0)) TEMP_CRITICAL"
  "f_ge (f_add MIN_CURRENT (f32_lit 0.05)) MIN_CURRENT"
  "f_le (f_sub MAX_CURRENT (f32_lit 0.1)) MAX_CURRENT"
  by (simp_all add: threshold_vals recovery_literal_nf f_sub_def f_ge_def f32_round_def
        f32_exponent_def round_half_even_def eval_nat_numeral Let_def)

text \<open>
  C10. \<^verbatim>\<open>attempt_error_recovery\<close> returns true exactly when the system is not \<^verbatim>\<open>NULL\<close> and the
  code is one of the nine enumerators: each corrected value (\<open>MIN_VOLTAGE + 0.1\<close>,
  \<open>MAX_VOLTAGE - 0.1\<close>, \<open>TEMP_CRITICAL - 5.0\<close>, \<open>MIN_CURRENT + 0.05\<close>, \<open>MAX_CURRENT - 0.1\<close>, as
  rounded to \<^verbatim>\<open>float\<close>) passes the bound check that follows it; a \<^verbatim>\<open>NULL\<close> system and a code
  outside the enumeration are the only failures.
\<close>

theorem attempt_error_recovery_succeeds:
  "fst (attempt_error_recovery system code st)
     = (system = SystemPtr
        \<and> code \<in> {ERROR_NONE, ERROR_VOLTAGE_LOW, ERROR_VOLTAGE_HIGH, ERROR_TEMPERATURE_HIGH,
                   ERROR_CURRENT_LOW, ERROR_CURRENT_HIGH, ERROR_COMMUNICATION, ERROR_TIMEOUT,
                   ERROR_INVALID_DATA})
   \<and> f_ge (f_add MIN_VOLTAGE (f32_lit 0.1)) MIN_VOLTAGE
   \<and> f_le (f_sub MAX_VOLTAGE (f32_lit 0.1)) MAX_VOLTAGE
   \<and> f_le (f_sub TEMP_CRITICAL (f32_lit 5.0)) TEMP_CRITICAL
   \<and> f_ge (f_add MIN_CURRENT (f32_lit 0.05)) MIN_CURRENT
   \<and> f_le (f_sub MAX_CURRENT (f32_lit 0.1)) MAX_CURRENT"
proof -
  have "fst (attempt_error_recovery system code st)
     = (system = SystemPtr
        \<and> code \<in> {ERROR_NONE, ERROR_VOLTAGE_LOW, ERROR_VOLTAGE_HIGH, ERROR_TEMPERATURE_HIGH,
                   ERROR_CURRENT_LOW, ERROR_CURRENT_HIGH, ERROR_COMMUNICATION, ERROR_TIMEOUT,
                   ERROR_INVALID_DATA})"
    using corrected_in_bounds
    by (cases system) (auto simp: attempt_error_recovery_def Let_def)
  with corrected_in_bounds show ?thesis by simp
qed

section \<open>Arithmetic within the range of int\<close>

lemma int32_id: "INT_MIN \<le> x \<Longrightarrow> x \<le> INT_MAX \<Longrightarrow> int32 x = x"
  by (simp add: int32_def INT_MIN_def INT_MAX_def mod_pos_pos_trivial)

section \<open>Frame lemmas: what the operations leave alone\<close>

lemma read_register_sys [simp]: "sys (snd (read_register a st)) = sys st"
  by (simp add: read_register_def Let_def)

lemma set_reg_frame [simp]:
  "error_count (sys (set_reg i f st)) = error_count (sys st)"
  "status (sys (set_reg i f st)) = status (sys st)"
  "voltage (sys (set_reg i f st)) = voltage (sys st)"
  "temperature (sys (set_reg i f st)) = temperature (sys st)"
  "current (sys (set_reg i f st)) = current (sys st)"
  "num_registers (sys (set_reg i f st)) = num_registers (sys st)"
  by (simp_all add: set_reg_def)

lemma update_body_frame [simp]:
  "error_count (sys (update_body i st)) = error_count (sys st)"
  "status (sys (update_body i st)) = status (sys st)"
  "voltage (sys (update_body i st)) = voltage (sys st)"
  "temperature (sys (update_body i st)) = temperature (sys st)"
  "current (sys (update_body i st)) = current (sys st)"
  by (simp_all add: update_body_def split_def Let_def)

lemma update_loop_frame [simp]:
  "error_count (sys (update_loop i st)) = error_count (sys st)"
  "status (sys (update_loop i st)) = status (sys st)"
  "voltage (sys (update_loop i st)) = voltage (sys st)"
  "temperature (sys (update_loop i st)) = temperature (sys st)"
  "current (sys (update_loop i st)) = current (sys st)"
  by (induction i st rule: update_loop.induct; subst update_loop.simps; simp)+

lemma update_all_registers_frame [simp]:
  "error_count (sys (update_all_registers p st)) = error_count (sys st)"
  "voltage (sys (update_all_registers p st)) = voltage (sys st)"
  "temperature (sys (update_all_registers p st)) = temperature (sys st)"
  "current (sys (update_all_registers p st)) = current (sys st)"
  by (simp_all add: update_all_registers_def Let_def split: sys_ptr.splits)

lemma update_all_registers_status:
  "status (sys (update_all_registers SystemPtr st))
     = determine_system_status (voltage (sys st)) (temperature (sys st)) (current (sys st))"
  by (simp add: update_all_registers_def Let_def)

lemma scan_body_frame:
  "status (sys (snd (snd (scan_body i c st)))) = status (sys st)"
  "num_registers (sys (snd (snd (scan_body i c st)))) = num_registers (sys st)"
  by (simp_all add: scan_body_def split_def Let_def)

lemma scan_body_error_count:
  assumes "INT_MIN \<le> error_count (sys st)" "error_count (sys st) < INT_MAX"
  shows "error_count (sys st) \<le> error_count (sys (snd (snd (scan_body i c st))))"
    and "error_count (sys (snd (snd (scan_body i c st)))) \<le> error_count (sys st) + 1"
proof -
  have "int32 (error_count (sys st) + 1) = error_count (sys st) + 1"
    using assms by (intro int32_id) simp_all
  then show "error_count (sys st) \<le> error_count (sys (snd (snd (scan_body i c st))))"
    and "error_count (sys (snd (snd (scan_body i c st)))) \<le> error_count (sys st) + 1"
    by (simp_all add: scan_body_def split_def Let_def)
qed

lemma scan_loop_error_count:
  "INT_MIN \<le> error_count (sys st) \<Longrightarrow>
   error_count (sys st) + (num_registers (sys st) - i) \<le> INT_MAX \<Longrightarrow>
   error_count (sys st) \<le> error_count (sys (snd (scan_loop i c st)))"
proof (induction i c st rule: scan_loop.induct)
  case (1 i c st)
  show ?case
  proof (cases "i < num_registers (sys st)")
    case False
    then show ?thesis by (subst scan_loop.simps) simp
  next
    case True
    obtain e c1 st1 where b: "scan_body i c st = (e, c1, st1)"
      by (cases "scan_body i c st") auto
    from True "1.prems" have room: "error_count (sys st) < INT_MAX" by simp
    have le: "error_count (sys st) \<le> error_count (sys st1)"
      and ub: "error_count (sys st1) \<le> error_count (sys st) + 1"
      using scan_body_error_count [OF "1.prems"(1) room, of i c] b by simp_all
    have n: "num_registers (sys st1) = num_registers (sys st)"
      using scan_body_frame(2) [of i c st] b by simp
    from le "1.prems"(1) have p1: "INT_MIN \<le> error_count (sys st1)" by simp
    from ub "1.prems"(2) n
    have p2: "error_count (sys st1) + (num_registers (sys st1) - (i + 1)) \<le> INT_MAX"
      by simp
    show ?thesis
    proof (cases e)
      case Break
      with True b le show ?thesis by (subst scan_loop.simps) simp
    next
      case Continue
      with True b le p1 p2 "1.IH"(2) [of e "(c1, st1)" c1 st1]
      show ?thesis by (subst scan_loop.simps) simp
    next
      case Fallthrough
      with True b le p1 p2 "1.IH"(1) [of e "(c1, st1)" c1 st1]
      show ?thesis by (subst scan_loop.simps) simp
    qed
  qed
qed

lemma scan_loop_status:
  "status (sys (snd (scan_loop i c st))) = status (sys st)"
proof (induction i c st rule: scan_loop.induct)
  case (1 i c st)
  show ?case
  proof (cases "i < num_registers (sys st)")
    case False
    then show ?thesis by (subst scan_loop.simps) simp
  next
    case True
    obtain e c1 st1 where b: "scan_body i c st = (e, c1, st1)"
      by (cases "scan_body i c st") auto
    have eq: "status (sys st1) = status (sys st)"
      using scan_body_frame(1) [of i c st] b by simp
    show ?thesis
    proof (cases e)
      case Break
      with True b eq show ?thesis by (subst scan_loop.simps) simp
    next
      case Continue
      with True b eq "1.IH"(2) [of e "(c1, st1)" c1 st1]
      show ?thesis by (subst scan_loop.simps) simp
    next
      case Fallthrough
      with True b eq "1.IH"(1) [of e "(c1, st1)" c1 st1]
      show ?thesis by (subst scan_loop.simps) simp
    qed
  qed
qed

lemma c_time_sys [simp]: "sys (snd (c_time st)) = sys st"
  by (simp add: c_time_def)

lemma log_recovery_error_sys [simp]: "sys (log_recovery_error code d r ok st) = sys st"
  by (simp add: log_recovery_error_def c_time_def Let_def)

lemma graceful_degradation_sys [simp]: "sys (graceful_degradation p st) = sys st"
  by (simp add: graceful_degradation_def Let_def split: sys_ptr.splits)

lemma init_recovery_system_sys [simp]: "sys (snd (init_recovery_system p st)) = sys st"
  by (simp add: init_recovery_system_def split: sys_ptr.splits)

lemma attempt_error_recovery_error_count [simp]:
  "error_count (sys (snd (attempt_error_recovery p code st))) = error_count (sys st)"
  by (simp add: attempt_error_recovery_def Let_def split: sys_ptr.splits)

lemma attempt_error_recovery_status:
  "code \<noteq> ERROR_INVALID_DATA \<Longrightarrow>
     status (sys (snd (attempt_error_recovery p code st))) = status (sys st)"
  by (simp add: attempt_error_recovery_def Let_def split: sys_ptr.splits)

lemma retry_loop_frame:
  "error_count (sys (snd (retry_loop a m st))) = error_count (sys st)
   \<and> status (sys (snd (retry_loop a m st))) = status (sys st)"
proof (induction a m st rule: retry_loop.induct)
  case (1 a m st)
  define s where
    "s = determine_system_status (voltage (sys st)) (temperature (sys st)) (current (sys st))"
  define e where
    "e = (if s = STATUS_CRITICAL then ERROR_TEMPERATURE_HIGH else ERROR_VOLTAGE_LOW)"
  define r where "r = attempt_error_recovery SystemPtr e st"
  define st2 where
    "st2 = log_recovery_error e ''Retry mechanism recovery attempt'' (a + 1) (fst r) (snd r)"
  have e_ok: "e \<noteq> ERROR_INVALID_DATA"
    by (simp add: e_def error_code_defs)
  have st2_frame: "error_count (sys st2) = error_count (sys st)"
    "status (sys st2) = status (sys st)"
    by (simp_all add: st2_def r_def attempt_error_recovery_status e_ok)
  have unfold: "retry_loop a m st =
      (if a \<le> m then
         if s = STATUS_CRITICAL \<or> s = STATUS_VOLTAGE_ERROR then
           (if a < m then retry_loop (a + 1) m st2 else retry_loop (a + 1) m st)
         else (True, if 0 < a
                     then log_recovery_error ERROR_NONE ''Operation successful after retries''
                            a True st
                     else st)
       else (False, log_recovery_error ERROR_TIMEOUT ''Maximum retry attempts exceeded''
                      m False st))"
    by (subst retry_loop.simps) (simp add: Let_def split_def s_def e_def r_def st2_def)
  have IH1: "error_count (sys (snd (retry_loop (a + 1) m st2))) = error_count (sys st2)
             \<and> status (sys (snd (retry_loop (a + 1) m st2))) = status (sys st2)"
    if "a \<le> m" "s = STATUS_CRITICAL \<or> s = STATUS_VOLTAGE_ERROR" "a < m"
    using "1.IH"(1) [of s e r "fst r" "snd r" st2] that
    by (simp add: s_def e_def r_def st2_def)
  have IH2: "error_count (sys (snd (retry_loop (a + 1) m st))) = error_count (sys st)
             \<and> status (sys (snd (retry_loop (a + 1) m st))) = status (sys st)"
    if "a \<le> m" "s = STATUS_CRITICAL \<or> s = STATUS_VOLTAGE_ERROR" "\<not> a < m"
    using "1.IH"(2) [of s] that
    by (simp add: s_def)
  show ?case
    unfolding unfold using IH1 IH2 st2_frame by auto
qed

lemma recovery_loop_frame:
  "error_count (sys (snd (snd (recovery_loop a code st)))) = error_count (sys st)
   \<and> (code \<noteq> ERROR_INVALID_DATA \<longrightarrow>
        status (sys (snd (snd (recovery_loop a code st)))) = status (sys st))"
proof (induction a code st rule: recovery_loop.induct)
  case (1 a code st)
  define r where "r = attempt_error_recovery SystemPtr code st"
  define s where
    "s = determine_system_status (voltage (sys (snd r))) (temperature (sys (snd r)))
           (current (sys (snd r)))"
  have r_frame: "error_count (sys (snd r)) = error_count (sys st)"
    "code \<noteq> ERROR_INVALID_DATA \<Longrightarrow> status (sys (snd r)) = status (sys st)"
    by (simp_all add: r_def attempt_error_recovery_status)
  have unfold: "recovery_loop a code st =
      (if a \<le> MAX_RETRY_ATTEMPTS then
         if fst r \<and> (s = STATUS_NORMAL \<or> s = STATUS_WARNING) then (True, a, snd r)
         else recovery_loop (a + 1) code (snd r)
       else (False, a, st))"
    by (subst recovery_loop.simps) (auto simp: Let_def split_def r_def s_def)
  have IH: "error_count (sys (snd (snd (recovery_loop (a + 1) code (snd r)))))
              = error_count (sys (snd r))
            \<and> (code \<noteq> ERROR_INVALID_DATA \<longrightarrow>
                 status (sys (snd (snd (recovery_loop (a + 1) code (snd r)))))
                   = status (sys (snd r)))"
    if "a \<le> MAX_RETRY_ATTEMPTS" "\<not> (fst r \<and> (s = STATUS_NORMAL \<or> s = STATUS_WARNING))"
    using "1.IH" [of r "fst r" "snd r" s] that
    by (simp add: r_def s_def)
  show ?case
    unfolding unfold using IH r_frame by auto
qed

lemma comprehensive_error_recovery_frame:
  "error_count (sys (snd (comprehensive_error_recovery p code st))) = error_count (sys st)
   \<and> (code \<noteq> ERROR_INVALID_DATA \<longrightarrow>
        status (sys (snd (comprehensive_error_recovery p code st))) = status (sys st))"
proof (cases p)
  case NULL
  then show ?thesis by (simp add: comprehensive_error_recovery_def)
next
  case SystemPtr
  define st1 where "st1 =
     (if code = ERROR_TEMPERATURE_HIGH then
        st\<lparr>sys := (sys st)\<lparr>temperature := f_sub (temperature (sys st)) (f32_lit 10.0)\<rparr>\<rparr>
      else if code = ERROR_VOLTAGE_LOW \<or> code = ERROR_VOLTAGE_HIGH then
        (if code = ERROR_VOLTAGE_LOW
         then st\<lparr>sys := (sys st)\<lparr>voltage := f_add MIN_VOLTAGE (f32_lit 0.1)\<rparr>\<rparr>
         else st\<lparr>sys := (sys st)\<lparr>voltage := f_sub MAX_VOLTAGE (f32_lit 0.1)\<rparr>\<rparr>)
      else if code = ERROR_CURRENT_HIGH then
        st\<lparr>sys := (sys st)\<lparr>current := f_sub MAX_CURRENT (f32_lit 0.1)\<rparr>\<rparr>
      else st)"
  have st1_frame: "error_count (sys st1) = error_count (sys st)"
    "status (sys st1) = status (sys st)"
    by (simp_all add: st1_def)
  have "sys (snd (comprehensive_error_recovery p code st))
          = sys (snd (snd (recovery_loop 1 code st1)))"
    by (simp add: comprehensive_error_recovery_def SystemPtr Let_def split_def st1_def)
  with recovery_loop_frame [of 1 code st1] st1_frame show ?thesis by simp
qed

lemma simulate_error_scenarios_frame:
  "error_count (sys (simulate_error_scenarios st)) = 8
   \<and> status (sys (simulate_error_scenarios st)) = status (sys st)"
proof -
  have codes: "ERROR_TEMPERATURE_HIGH \<noteq> ERROR_INVALID_DATA"
    "ERROR_VOLTAGE_LOW \<noteq> ERROR_INVALID_DATA" "ERROR_COMMUNICATION \<noteq> ERROR_INVALID_DATA"
    "ERROR_CURRENT_HIGH \<noteq> ERROR_INVALID_DATA"
    by (simp_all add: error_code_defs)
  show ?thesis
    by (simp add: simulate_error_scenarios_def Let_def split_def codes
          comprehensive_error_recovery_frame)
qed

lemma monitoring_loop_frame:
  "monitoring_loop fuel t0 d st = Some st' \<Longrightarrow>
     error_count (sys st') = error_count (sys st)
     \<and> (status (sys st') = status (sys st)
        \<or> status (sys st') = determine_system_status (voltage (sys st))
              (temperature (sys st)) (current (sys st)))
     \<and> voltage (sys st') = voltage (sys st) \<and> temperature (sys st') = temperature (sys st)
     \<and> current (sys st') = current (sys st)"
proof (induction fuel arbitrary: st)
  case 0
  then show ?case by simp
next
  case (Suc fuel)
  show ?case
  proof (cases "system_active (sys st)")
    case False
    with Suc.prems show ?thesis by simp
  next
    case True
    define st1 where "st1 = snd (c_time st)"
    define st2 where "st2 = update_all_registers SystemPtr st1"
    have f1: "sys st1 = sys st" by (simp add: st1_def)
    have f2: "error_count (sys st2) = error_count (sys st)"
      "voltage (sys st2) = voltage (sys st)" "temperature (sys st2) = temperature (sys st)"
      "current (sys st2) = current (sys st)"
      "status (sys st2) = determine_system_status (voltage (sys st))
              (temperature (sys st)) (current (sys st))"
      by (simp_all add: st2_def f1 update_all_registers_status)
    have step: "monitoring_loop (Suc fuel) t0 d st =
        (if d \<le> fst (c_time st) - t0 then Some st1
         else if check_critical_conditions SystemPtr st2 then Some st2
         else if MAX_ERRORS \<le> error_count (sys st2) then Some st2
         else monitoring_loop fuel t0 d st2)"
      using True by (simp add: Let_def split_def st1_def st2_def)
    from Suc.prems
    consider "st' = st1" | "st' = st2" | "monitoring_loop fuel t0 d st2 = Some st'"
      unfolding step
      by (cases "d \<le> fst (c_time st) - t0"; cases "check_critical_conditions SystemPtr st2";
          cases "MAX_ERRORS \<le> error_count (sys st2)"; simp)
    then show ?thesis
    proof cases
      case 1
      with f1 show ?thesis by simp
    next
      case 2
      with f2 show ?thesis by simp
    next
      case 3
      from Suc.IH [OF 3] f2 show ?thesis by auto
    qed
  qed
qed

lemma init_loop_frame:
  "error_count (sys (init_loop i st)) = error_count (sys st)
   \<and> status (sys (init_loop i st)) = status (sys st)"
  by (induction i st rule: init_loop.induct; subst (1 2) init_loop.simps)
     (simp add: init_body_def)

lemma init_monitor_system_frame:
  "error_count (sys (init_monitor_system SystemPtr st)) = 0"
  "status (sys (init_monitor_system SystemPtr st)) = STATUS_NORMAL"
  "init_monitor_system NULL st = st"
  by (simp_all add: init_monitor_system_def init_loop_frame)

lemma scan_all_registers_frame:
  "status (sys (snd (scan_all_registers p st))) = status (sys st)"
  by (simp add: scan_all_registers_def scan_loop_status split: sys_ptr.splits)

lemma scan_all_registers_error_count:
  assumes "INT_MIN \<le> error_count (sys st)"
    and "error_count (sys st) + max 1 (num_registers (sys st)) \<le> INT_MAX"
  shows "error_count (sys st) \<le> error_count (sys (snd (scan_all_registers p st)))"
proof (cases p)
  case NULL
  then show ?thesis by (simp add: scan_all_registers_def)
next
  case SystemPtr
  from assms(2) have "error_count (sys st) + (num_registers (sys st) - 0) \<le> INT_MAX"
    by simp
  from scan_loop_error_count [OF assms(1) this, of 0] SystemPtr
  show ?thesis by (simp add: scan_all_registers_def)
qed

lemma simulate_hardware_failure_frame:
  "status (sys (snd (simulate_hardware_failure p code st))) = status (sys st)"
  by (simp add: simulate_hardware_failure_def Let_def split: sys_ptr.splits)

lemma simulate_hardware_failure_error_count:
  assumes "INT_MIN \<le> error_count (sys st)" "error_count (sys st) < INT_MAX"
  shows "error_count (sys (snd (simulate_hardware_failure p code st)))
           \<in> {error_count (sys st), error_count (sys st) + 1}"
proof -
  have "int32 (error_count (sys st) + 1) = error_count (sys st) + 1"
    using assms by (intro int32_id) simp_all
  then show ?thesis
    by (simp add: simulate_hardware_failure_def Let_def split: sys_ptr.splits)
qed

lemma cleanup_monitor_system_frame:
  "error_count (sys (cleanup_monitor_system p st)) = error_count (sys st)"
  "status (sys (cleanup_monitor_system p st)) = status (sys st)"
  by (simp_all add: cleanup_monitor_system_def split: sys_ptr.splits)

lemma emergency_shutdown_frame:
  "error_count (sys (emergency_shutdown p st)) = error_count (sys st)"
  "status (sys (emergency_shutdown SystemPtr st)) = STATUS_CRITICAL"
  "emergency_shutdown NULL st = st"
  by (simp_all add: emergency_shutdown_def Let_def split: sys_ptr.splits)

lemma implement_retry_mechanism_frame:
  "error_count (sys (snd (implement_retry_mechanism p n st))) = error_count (sys st)"
  "status (sys (snd (implement_retry_mechanism p n st))) = status (sys st)"
  by (simp_all add: implement_retry_mechanism_def retry_loop_frame split: sys_ptr.splits)

lemma continuous_monitoring_loop_frame:
  assumes "continuous_monitoring_loop fuel p d st = Some st'"
  shows "error_count (sys st') = error_count (sys st)"
    and "status (sys st') = status (sys st)
         \<or> status (sys st') = determine_system_status (voltage (sys st))
               (temperature (sys st)) (current (sys st))"
    and "p = NULL \<Longrightarrow> status (sys st') = status (sys st)"
proof -
  show "p = NULL \<Longrightarrow> status (sys st') = status (sys st)"
    using assms by (simp add: continuous_monitoring_loop_def)
  show "error_count (sys st') = error_count (sys st)"
  proof (cases "p = NULL \<or> d \<le> 0")
    case True
    with assms show ?thesis by (simp add: continuous_monitoring_loop_def)
  next
    case False
    with assms
    have "monitoring_loop fuel (fst (c_time st)) d (snd (c_time st)) = Some st'"
      by (simp add: continuous_monitoring_loop_def split_def Let_def)
    from monitoring_loop_frame [OF this] show ?thesis by simp
  qed
  show "status (sys st') = status (sys st)
         \<or> status (sys st') = determine_system_status (voltage (sys st))
               (temperature (sys st)) (current (sys st))"
  proof (cases "p = NULL \<or> d \<le> 0")
    case True
    with assms show ?thesis by (simp add: continuous_monitoring_loop_def)
  next
    case False
    with assms
    have "monitoring_loop fuel (fst (c_time st)) d (snd (c_time st)) = Some st'"
      by (simp add: continuous_monitoring_loop_def split_def Let_def)
    from monitoring_loop_frame [OF this] show ?thesis by simp
  qed
qed

lemma attempt_error_recovery_invalid_data:
  "status (sys (snd (attempt_error_recovery SystemPtr ERROR_INVALID_DATA st)))
     = determine_system_status (voltage (sys st)) (temperature (sys st)) (current (sys st))"
  "voltage (sys (snd (attempt_error_recovery SystemPtr ERROR_INVALID_DATA st))) = voltage (sys st)"
  "temperature (sys (snd (attempt_error_recovery SystemPtr ERROR_INVALID_DATA st)))
     = temperature (sys st)"
  "current (sys (snd (attempt_error_recovery SystemPtr ERROR_INVALID_DATA st))) = current (sys st)"
  by (simp_all add: attempt_error_recovery_def error_code_defs update_all_registers_status)

lemma recovery_loop_invalid_data:
  "voltage (sys (snd (snd (recovery_loop a ERROR_INVALID_DATA st)))) = voltage (sys st)
   \<and> temperature (sys (snd (snd (recovery_loop a ERROR_INVALID_DATA st)))) = temperature (sys st)
   \<and> current (sys (snd (snd (recovery_loop a ERROR_INVALID_DATA st)))) = current (sys st)
   \<and> (status (sys (snd (snd (recovery_loop a ERROR_INVALID_DATA st)))) = status (sys st)
      \<or> status (sys (snd (snd (recovery_loop a ERROR_INVALID_DATA st))))
          = determine_system_status (voltage (sys st)) (temperature (sys st))
              (current (sys st)))"
proof (induction a "ERROR_INVALID_DATA" st rule: recovery_loop.induct)
  case (1 a st)
  define r where "r = attempt_error_recovery SystemPtr ERROR_INVALID_DATA st"
  define s where
    "s = determine_system_status (voltage (sys (snd r))) (temperature (sys (snd r)))
           (current (sys (snd r)))"
  note r_frame = attempt_error_recovery_invalid_data [of st, folded r_def]
  have unfold: "recovery_loop a ERROR_INVALID_DATA st =
      (if a \<le> MAX_RETRY_ATTEMPTS then
         if fst r \<and> (s = STATUS_NORMAL \<or> s = STATUS_WARNING) then (True, a, snd r)
         else recovery_loop (a + 1) ERROR_INVALID_DATA (snd r)
       else (False, a, st))"
    by (subst recovery_loop.simps) (auto simp: Let_def split_def r_def s_def)
  have IH: "voltage (sys (snd (snd (recovery_loop (a + 1) ERROR_INVALID_DATA (snd r)))))
              = voltage (sys (snd r))
   \<and> temperature (sys (snd (snd (recovery_loop (a + 1) ERROR_INVALID_DATA (snd r)))))
       = temperature (sys (snd r))
   \<and> current (sys (snd (snd (recovery_loop (a + 1) ERROR_INVALID_DATA (snd r)))))
       = current (sys (snd r))
   \<and> (status (sys (snd (snd (recovery_loop (a + 1) ERROR_INVALID_DATA (snd r)))))
         = status (sys (snd r))
      \<or> status (sys (snd (snd (recovery_loop (a + 1) ERROR_INVALID_DATA (snd r)))))
          = determine_system_status (voltage (sys (snd r))) (temperature (sys (snd r)))
              (current (sys (snd r))))"
    if "a \<le> MAX_RETRY_ATTEMPTS" "\<not> (fst r \<and> (s = STATUS_NORMAL \<or> s = STATUS_WARNING))"
    using "1.hyps" [of r "fst r" "snd r" s] that
    by (simp add: r_def s_def)
  show ?case
    unfolding unfold using IH r_frame by auto
qed

lemma comprehensive_error_recovery_invalid_data:
  "status (sys (snd (comprehensive_error_recovery p ERROR_INVALID_DATA st))) = status (sys st)
   \<or> status (sys (snd (comprehensive_error_recovery p ERROR_INVALID_DATA st)))
        = determine_system_status (voltage (sys st)) (temperature (sys st)) (current (sys st))"
proof (cases p)
  case NULL
  then show ?thesis by (simp add: comprehensive_error_recovery_def)
next
  case SystemPtr
  have "sys (snd (comprehensive_error_recovery p ERROR_INVALID_DATA st))
          = sys (snd (snd (recovery_loop 1 ERROR_INVALID_DATA st)))"
    by (simp add: comprehensive_error_recovery_def SystemPtr Let_def split_def error_code_defs)
  with recovery_loop_invalid_data [of 1 st] show ?thesis by auto
qed

lemma null_calls [simp]:
  "attempt_error_recovery NULL c st = (False, st)"
  "comprehensive_error_recovery NULL c st = (False, st)"
  "update_all_registers NULL st = st"
  by (simp_all add: attempt_error_recovery_def comprehensive_error_recovery_def
        update_all_registers_def)

section \<open>The register scan\<close>

text \<open>
  Inside the table the body of the scan loop is never left by \<^verbatim>\<open>break\<close>: a failed register
  takes the \<^verbatim>\<open>continue\<close> in front of the test for the control register, and a register that
  passed has just been marked valid.
\<close>

lemma scan_body_never_breaks:
  "nat i < length (registers (sys st)) \<Longrightarrow> fst (scan_body i c st) \<noteq> Break"
  by (simp add: scan_body_def split_def Let_def set_reg_def reg_def read_register_def)

text \<open>
  C2 (the code departs from the claim). The claim has the scan abort when register 0 fails.
  On the initialised system whose control register cannot pass, \<^verbatim>\<open>scan_all_registers\<close> marks
  register 0 invalid and counts the error, and then goes on: \<^verbatim>\<open>read_register\<close> is called four
  times, the registers 1, 2 and 3 receive new values and are validated, and the result is 3.
\<close>

theorem scan_continues_after_control_register_failure:
  "(let (n, st) = scan_all_registers SystemPtr control_failure_state
    in n = 3 \<and> counter st = counter control_failure_state + 4
       \<and> \<not> is_valid (reg st 0) \<and> value (reg st 0) = 0x12345688
       \<and> is_valid (reg st 1) \<and> value (reg st 1) = 0x12345698
       \<and> is_valid (reg st 2) \<and> value (reg st 2) = 0x123456A8
       \<and> is_valid (reg st 3) \<and> value (reg st 3) = 0x123456B8
       \<and> error_count (sys st) = error_count (sys control_failure_state) + 1)"
  by code_simp

section \<open>Graceful degradation\<close>

lemma log_recovery_error_level [simp]:
  "degradation_level (recovery_state (log_recovery_error code d r ok st))
     = degradation_level (recovery_state st)"
  by (simp add: log_recovery_error_def c_time_def Let_def)

lemma penalty_values:
  "voltage_penalty s \<in> {0, 15, 30}"
  "temperature_penalty s \<in> {0, 20, 40}"
  "current_penalty s \<in> {0, 25}"
  by (simp_all add: voltage_penalty_def temperature_penalty_def current_penalty_def)

lemma health_score_in_range:
  assumes "- 214748354 \<le> error_count s" "error_count s \<le> 214748355"
  shows "health_score s
           = max 0 (100 - 10 * error_count s - voltage_penalty s - temperature_penalty s
                    - current_penalty s)"
proof -
  define v where "v = voltage_penalty s"
  define t where "t = temperature_penalty s"
  define c where "c = current_penalty s"
  have v: "0 \<le> v" "v \<le> 30" and t: "0 \<le> t" "t \<le> 40" and c: "0 \<le> c" "c \<le> 25"
    using penalty_values [of s] by (auto simp: v_def t_def c_def)
  have e: "error_penalty s = error_count s * 10"
    unfolding error_penalty_def using assms
    by (intro int32_id) (simp_all add: INT_MIN_def INT_MAX_def)
  have s1: "int32 (error_count s * 10 + v) = error_count s * 10 + v"
    using assms v by (intro int32_id) (simp_all add: INT_MIN_def INT_MAX_def)
  have s2: "int32 (error_count s * 10 + v + t) = error_count s * 10 + v + t"
    using assms v t by (intro int32_id) (simp_all add: INT_MIN_def INT_MAX_def)
  have s3: "int32 (error_count s * 10 + v + t + c) = error_count s * 10 + v + t + c"
    using assms v t c by (intro int32_id) (simp_all add: INT_MIN_def INT_MAX_def)
  have s4: "int32 (100 - (error_count s * 10 + v + t + c))
              = 100 - (error_count s * 10 + v + t + c)"
    using assms v t c by (intro int32_id) (simp_all add: INT_MIN_def INT_MAX_def)
  show ?thesis
    by (simp add: health_score_def Let_def e s1 s2 s3 s4 max_def
          v_def [symmetric] t_def [symmetric] c_def [symmetric])
qed

text \<open>
  C7 (as amended). For a non-null system whose \<^verbatim>\<open>error_count\<close> lies between -214748354 and
  214748355, the range in which neither the product by 10, the sums with the penalties nor
  the subtraction from 100 leaves the range of \<^verbatim>\<open>int\<close>, the health score of
  \<^verbatim>\<open>graceful_degradation\<close> is
  \<open>max 0 (100 - 10 * error_count - voltage_penalty - temperature_penalty - current_penalty)\<close>,
  with a voltage penalty of 0, 15 or 30, a temperature penalty of 0, 20 or 40 and a current
  penalty of 0 or 25. For every non-null system the stored degradation level after the call
  is 0 for a computed score of at least 80, 1 for a score in [60, 80), 2 for a score in
  [30, 60) and 3 below; and when that level equals the stored one the call changes nothing.
\<close>

theorem graceful_degradation_levels:
  "(- 214748354 \<le> error_count (sys st) \<and> error_count (sys st) \<le> 214748355 \<longrightarrow>
      health_score (sys st)
        = max 0 (100 - 10 * error_count (sys st) - voltage_penalty (sys st)
                 - temperature_penalty (sys st) - current_penalty (sys st)))
   \<and> voltage_penalty (sys st) \<in> {0, 15, 30}
   \<and> temperature_penalty (sys st) \<in> {0, 20, 40}
   \<and> current_penalty (sys st) \<in> {0, 25}
   \<and> degradation_level (recovery_state (graceful_degradation SystemPtr st))
       = (if 80 \<le> health_score (sys st) then 0
          else if 60 \<le> health_score (sys st) then 1
          else if 30 \<le> health_score (sys st) then 2
          else 3)
   \<and> ((if 80 \<le> health_score (sys st) then 0
        else if 60 \<le> health_score (sys st) then 1
        else if 30 \<le> health_score (sys st) then 2
        else 3) = degradation_level (recovery_state st)
       \<longrightarrow> graceful_degradation SystemPtr st = st)"
proof -
  have level: "degradation_level (recovery_state (graceful_degradation SystemPtr st))
       = new_degradation_level (health_score (sys st))"
    by (simp add: graceful_degradation_def Let_def new_degradation_level_def)
  have same: "new_degradation_level (health_score (sys st))
                = degradation_level (recovery_state st)
              \<Longrightarrow> graceful_degradation SystemPtr st = st"
    by (simp add: graceful_degradation_def Let_def)
  from health_score_in_range [of "sys st"] penalty_values [of "sys st"] level same
  show ?thesis
    by (simp add: new_degradation_level_def)
qed

lemma initial_health:
  "health_score (sys initial_state) = 85"
  "error_count (sys initial_state) = 0"
  "degradation_level (recovery_state initial_state) = 0"
  by code_simp+

theorem graceful_degradation_levels_witness:
  "- 214748354 \<le> error_count (sys initial_state)
   \<and> error_count (sys initial_state) \<le> 214748355
   \<and> health_score (sys initial_state)
       = max 0 (100 - 10 * error_count (sys initial_state) - voltage_penalty (sys initial_state)
                - temperature_penalty (sys initial_state) - current_penalty (sys initial_state))
   \<and> (if 80 \<le> health_score (sys initial_state) then 0
       else if 60 \<le> health_score (sys initial_state) then 1
       else if 30 \<le> health_score (sys initial_state) then 2
       else 3) = degradation_level (recovery_state initial_state)
   \<and> graceful_degradation SystemPtr initial_state = initial_state"
  using graceful_degradation_levels [of initial_state] initial_health
  by simp

text \<open>
  C7 as stated fails when the arithmetic overflows: with 429496729 errors the product by 10
  wraps around to -6, the computed score is 91 where the formula gives 0, and the level
  stored is 0 where the formula asks for 3.
\<close>

theorem graceful_degradation_overflow_counterexample:
  "health_score (sys wrapped_penalty_state) = 91
   \<and> max 0 (100 - 10 * error_count (sys wrapped_penalty_state)
            - voltage_penalty (sys wrapped_penalty_state)
            - temperature_penalty (sys wrapped_penalty_state)
            - current_penalty (sys wrapped_penalty_state)) = 0
   \<and> degradation_level (recovery_state (graceful_degradation SystemPtr wrapped_penalty_state))
       = 0"
  by code_simp

section \<open>The error count\<close>

text \<open>
  C8 (as amended). On a system whose \<^verbatim>\<open>error_count\<close> is an \<^verbatim>\<open>int\<close> that leaves room below
  \<^verbatim>\<open>INT_MAX\<close> for one increment per register (and for at least one), \<^verbatim>\<open>error_count\<close> does not
  decrease across any operation except \<^verbatim>\<open>init_monitor_system\<close>, which resets it to 0, and
  \<^verbatim>\<open>simulate_error_scenarios\<close>, which overwrites it with 8: \<^verbatim>\<open>scan_all_registers\<close> and
  \<^verbatim>\<open>simulate_hardware_failure\<close> only increment it (the latter by at most one, below
  \<^verbatim>\<open>INT_MAX\<close>), and \<^verbatim>\<open>update_all_registers\<close>, \<^verbatim>\<open>attempt_error_recovery\<close>, \<^verbatim>\<open>emergency_shutdown\<close>
  and the validators leave it unchanged, whatever its value.
\<close>

theorem error_count_monotone:
  "(exec op st = Some st' \<and> op \<noteq> Init_monitor_system SystemPtr
      \<and> op \<noteq> Simulate_error_scenarios
      \<and> INT_MIN \<le> error_count (sys st)
      \<and> error_count (sys st) + max 1 (num_registers (sys st)) \<le> INT_MAX
      \<longrightarrow> error_count (sys st) \<le> error_count (sys st'))
   \<and> error_count (sys (init_monitor_system SystemPtr st)) = 0
   \<and> error_count (sys (simulate_error_scenarios st)) = 8
   \<and> (INT_MIN \<le> error_count (sys st)
        \<and> error_count (sys st) + max 1 (num_registers (sys st)) \<le> INT_MAX
      \<longrightarrow> error_count (sys st) \<le> error_count (sys (snd (scan_all_registers p st))))
   \<and> (INT_MIN \<le> error_count (sys st) \<and> error_count (sys st) < INT_MAX
      \<longrightarrow> error_count (sys (snd (simulate_hardware_failure p code st)))
            \<in> {error_count (sys st), error_count (sys st) + 1})
   \<and> error_count (sys (update_all_registers p st)) = error_count (sys st)
   \<and> error_count (sys (snd (attempt_error_recovery p code st))) = error_count (sys st)
   \<and> error_count (sys (emergency_shutdown p st)) = error_count (sys st)"
proof -
  have main: "error_count (sys st) \<le> error_count (sys st')"
    if "exec op st = Some st'" "op \<noteq> Init_monitor_system SystemPtr"
       "op \<noteq> Simulate_error_scenarios"
       and lo: "INT_MIN \<le> error_count (sys st)"
       and hi: "error_count (sys st) + max 1 (num_registers (sys st)) \<le> INT_MAX"
  proof (cases op)
    case (Scan_all_registers q)
    with that(1) scan_all_registers_error_count [OF lo hi, of q] show ?thesis by auto
  next
    case (Continuous_monitoring_loop fuel q d)
    with that continuous_monitoring_loop_frame(1) [of fuel q d st st'] show ?thesis by simp
  next
    case (Init_monitor_system q)
    with that(1,2) show ?thesis by (cases q) (auto simp: init_monitor_system_frame)
  next
    case (Simulate_hardware_failure q c)
    from hi have "error_count (sys st) < INT_MAX" by simp
    from simulate_hardware_failure_error_count [OF lo this, of q c]
      Simulate_hardware_failure that(1)
    show ?thesis by auto
  next
    case (Implement_retry_mechanism q n)
    with that(1) show ?thesis by (auto simp: implement_retry_mechanism_frame)
  next
    case (Comprehensive_error_recovery q c)
    with that(1) show ?thesis by (auto simp: comprehensive_error_recovery_frame)
  qed (use that(1,2,3) in \<open>auto simp: cleanup_monitor_system_frame emergency_shutdown_frame\<close>)
  show ?thesis
    using main scan_all_registers_error_count [of st p]
      simulate_hardware_failure_error_count [of st p code]
    by (simp add: init_monitor_system_frame simulate_error_scenarios_frame
          emergency_shutdown_frame)
qed

lemma control_failure_fields:
  "error_count (sys control_failure_state) = 0"
  "num_registers (sys control_failure_state) = 4"
  by code_simp+

theorem error_count_monotone_witness:
  "exec (Scan_all_registers SystemPtr) control_failure_state
     = Some (snd (scan_all_registers SystemPtr control_failure_state))
   \<and> Scan_all_registers SystemPtr \<noteq> Init_monitor_system SystemPtr
   \<and> Scan_all_registers SystemPtr \<noteq> Simulate_error_scenarios
   \<and> INT_MIN \<le> error_count (sys control_failure_state)
   \<and> error_count (sys control_failure_state)
        + max 1 (num_registers (sys control_failure_state)) \<le> INT_MAX
   \<and> error_count (sys control_failure_state) < INT_MAX
   \<and> error_count (sys control_failure_state)
       \<le> error_count (sys (snd (scan_all_registers SystemPtr control_failure_state)))
   \<and> error_count (sys (snd (simulate_hardware_failure SystemPtr ERROR_VOLTAGE_LOW
                              control_failure_state)))
       \<in> {error_count (sys control_failure_state),
           error_count (sys control_failure_state) + 1}"
  using error_count_monotone [of "Scan_all_registers SystemPtr" control_failure_state
          "snd (scan_all_registers SystemPtr control_failure_state)" SystemPtr
          ERROR_VOLTAGE_LOW]
  by (simp add: control_failure_fields INT_MIN_def INT_MAX_def)

text \<open>
  C8 as stated fails twice. At \<^verbatim>\<open>INT_MAX\<close> errors the increment of \<^verbatim>\<open>scan_all_registers\<close> for the
  failing control register wraps around to \<^verbatim>\<open>INT_MIN\<close>; and \<^verbatim>\<open>simulate_error_scenarios\<close>, which
  is not \<^verbatim>\<open>init_monitor_system\<close>, takes a system with nine errors to one with eight.
\<close>

theorem error_count_decrease_counterexample:
  "exec (Scan_all_registers SystemPtr) int_max_errors_state
     = Some (snd (scan_all_registers SystemPtr int_max_errors_state))
   \<and> error_count (sys int_max_errors_state) = 2147483647
   \<and> error_count (sys (snd (scan_all_registers SystemPtr int_max_errors_state)))
       = - 2147483648
   \<and> exec Simulate_error_scenarios nine_errors_state
       = Some (simulate_error_scenarios nine_errors_state)
   \<and> error_count (sys nine_errors_state) = 9
   \<and> error_count (sys (simulate_error_scenarios nine_errors_state)) = 8"
proof -
  have "error_count (sys int_max_errors_state) = 2147483647"
    "error_count (sys (snd (scan_all_registers SystemPtr int_max_errors_state)))
       = - 2147483648"
    by code_simp+
  then show ?thesis
    by (simp add: simulate_error_scenarios_frame nine_errors_state_def)
qed

section \<open>The status field\<close>

text \<open>
  C9 (as amended). Besides the initialisation, \<^verbatim>\<open>update_all_registers\<close> and
  \<^verbatim>\<open>emergency_shutdown\<close> are the only operations that write the status field: on a non-null
  system \<^verbatim>\<open>update_all_registers\<close> sets it to
  \<^verbatim>\<open>determine_system_status(voltage, temperature, current)\<close> and \<^verbatim>\<open>emergency_shutdown\<close> sets it
  to CRITICAL. An operation that reaches a call of \<^verbatim>\<open>update_all_registers\<close>
  (\<^verbatim>\<open>attempt_error_recovery\<close> and \<^verbatim>\<open>comprehensive_error_recovery\<close> for \<^verbatim>\<open>ERROR_INVALID_DATA\<close>,
  \<^verbatim>\<open>continuous_monitoring_loop\<close>) leaves the status as it was or as that call computes it;
  every other operation leaves it unchanged.
\<close>

theorem status_writers:
  "status (sys (update_all_registers SystemPtr st))
     = determine_system_status (voltage (sys st)) (temperature (sys st)) (current (sys st))
   \<and> status (sys (emergency_shutdown SystemPtr st)) = STATUS_CRITICAL
   \<and> status (sys (init_monitor_system SystemPtr st)) = STATUS_NORMAL
   \<and> (exec op st = Some st' \<and> calls_update_all_registers op
        \<longrightarrow> status (sys st') = status (sys st)
            \<or> status (sys st') = determine_system_status (voltage (sys st))
                  (temperature (sys st)) (current (sys st)))
   \<and> (exec op st = Some st' \<and> \<not> calls_update_all_registers op
        \<and> op \<noteq> Emergency_shutdown SystemPtr \<and> op \<noteq> Init_monitor_system SystemPtr
        \<longrightarrow> status (sys st') = status (sys st))"
proof -
  have upd: "status (sys st') = status (sys st)
            \<or> status (sys st') = determine_system_status (voltage (sys st))
                  (temperature (sys st)) (current (sys st))"
    if "exec op st = Some st'" "calls_update_all_registers op"
  proof (cases op)
    case (Update_all_registers q)
    with that show ?thesis by (auto simp: update_all_registers_status)
  next
    case (Continuous_monitoring_loop fuel q d)
    with that continuous_monitoring_loop_frame(2) [of fuel q d st st'] show ?thesis by simp
  next
    case (Attempt_error_recovery q c)
    with that show ?thesis by (auto simp: attempt_error_recovery_invalid_data)
  next
    case (Comprehensive_error_recovery q c)
    with that comprehensive_error_recovery_invalid_data [of q st] show ?thesis by auto
  qed (use that in auto)
  have other: "status (sys st') = status (sys st)"
    if "exec op st = Some st'" "\<not> calls_update_all_registers op"
       "op \<noteq> Emergency_shutdown SystemPtr" "op \<noteq> Init_monitor_system SystemPtr"
  proof (cases op)
    case (Scan_all_registers q)
    with that show ?thesis by (auto simp: scan_all_registers_frame)
  next
    case (Continuous_monitoring_loop fuel q d)
    with that continuous_monitoring_loop_frame(3) [of fuel q d st st'] show ?thesis
      by (cases q) auto
  next
    case (Update_all_registers q)
    with that show ?thesis by (cases q) auto
  next
    case (Attempt_error_recovery q c)
    with that show ?thesis
      by (cases q) (auto simp: attempt_error_recovery_status)
  next
    case (Init_monitor_system q)
    with that show ?thesis by (cases q) (auto simp: init_monitor_system_frame)
  next
    case (Cleanup_monitor_system q)
    with that show ?thesis by (auto simp: cleanup_monitor_system_frame)
  next
    case (Simulate_hardware_failure q c)
    with that show ?thesis by (auto simp: simulate_hardware_failure_frame)
  next
    case (Emergency_shutdown q)
    with that show ?thesis by (cases q) (auto simp: emergency_shutdown_frame)
  next
    case (Implement_retry_mechanism q n)
    with that show ?thesis by (auto simp: implement_retry_mechanism_frame)
  next
    case (Comprehensive_error_recovery q c)
    with that show ?thesis
      by (cases q) (auto simp: comprehensive_error_recovery_frame)
  next
    case Simulate_error_scenarios
    with that show ?thesis by (auto simp: simulate_error_scenarios_frame)
  qed (use that in auto)
  from upd other show ?thesis
    by (simp add: update_all_registers_status emergency_shutdown_frame
          init_monitor_system_frame)
qed

theorem status_writers_witness:
  "exec (Attempt_error_recovery SystemPtr ERROR_INVALID_DATA) initial_state
     = Some (snd (attempt_error_recovery SystemPtr ERROR_INVALID_DATA initial_state))
   \<and> calls_update_all_registers (Attempt_error_recovery SystemPtr ERROR_INVALID_DATA)
   \<and> (status (sys (snd (attempt_error_recovery SystemPtr ERROR_INVALID_DATA initial_state)))
         = status (sys initial_state)
       \<or> status (sys (snd (attempt_error_recovery SystemPtr ERROR_INVALID_DATA initial_state)))
         = determine_system_status (voltage (sys initial_state))
             (temperature (sys initial_state)) (current (sys initial_state)))
   \<and> exec (Scan_all_registers SystemPtr) control_failure_state
       = Some (snd (scan_all_registers SystemPtr control_failure_state))
   \<and> \<not> calls_update_all_registers (Scan_all_registers SystemPtr)
   \<and> Scan_all_registers SystemPtr \<noteq> Emergency_shutdown SystemPtr
   \<and> Scan_all_registers SystemPtr \<noteq> Init_monitor_system SystemPtr
   \<and> status (sys (snd (scan_all_registers SystemPtr control_failure_state)))
       = status (sys control_failure_state)"
  using status_writers [of initial_state "Attempt_error_recovery SystemPtr ERROR_INVALID_DATA"
          "snd (attempt_error_recovery SystemPtr ERROR_INVALID_DATA initial_state)"]
        status_writers [of control_failure_state "Scan_all_registers SystemPtr"
          "snd (scan_all_registers SystemPtr control_failure_state)"]
  by simp

text \<open>
  C9 as stated fails on \<^verbatim>\<open>emergency_shutdown\<close>: it is neither the initialisation nor
  \<^verbatim>\<open>update_all_registers\<close>, and it takes the NORMAL status of the initialised system to
  CRITICAL.
\<close>

theorem status_emergency_shutdown_counterexample:
  "exec (Emergency_shutdown SystemPtr) initial_state
     = Some (emergency_shutdown SystemPtr initial_state)
   \<and> status (sys initial_state) = STATUS_NORMAL
   \<and> status (sys (emergency_shutdown SystemPtr initial_state)) = STATUS_CRITICAL"
  by (simp add: emergency_shutdown_frame initial_state_def init_monitor_system_frame)

end
